theory Spec2Isabelle
  imports Complex_Main
begin

section \<open>Array values and their arithmetic\<close>

text \<open>
  The components of \<^verbatim>\<open>modal_structure_component.py\<close> compute on numpy arrays of
  double precision numbers.  An array element is a finite number, the negative zero, an
  infinity or a NaN.  \<open>Fin 0\<close> is the positive zero.  The finite numbers of the model are
  all the reals; the double precision numbers are some of them.
\<close>

datatype npfloat = Fin real | NZero | PInf | NInf | NaN

instantiation npfloat :: "{zero, one}"
begin

definition zero_npfloat :: npfloat where
  "zero_npfloat = Fin 0"

definition one_npfloat :: npfloat where
  "one_npfloat = Fin 1"

instance ..

end

text \<open>
  Floating-point arithmetic rounds, overflows and underflows, and \<^verbatim>\<open>np.sum\<close> adds in
  an order of its own.  Both belong to numpy and the machine, not to this repository, so
  both are parameters of the model, and what is proved holds for every choice of them,
  double precision rounding to nearest among them:
  \<^item> \<open>ar_rnd\<close> takes the magnitude of an exact nonzero result to the magnitude of the
    number that is stored for it (\<open>0\<close> on underflow), or to \<open>None\<close> on overflow;
  \<^item> \<open>ar_sum\<close> is \<^verbatim>\<open>np.sum\<close> on a one-dimensional array, given the addition of
    two elements.
  The sign of a result and the results on zeros, infinities and NaN follow IEEE 754, which
  leaves no choice there.  A division by zero is a warning in numpy, not an exception.
\<close>

record arith =
  ar_rnd :: "real \<Rightarrow> real option"
  ar_sum :: "(npfloat \<Rightarrow> npfloat \<Rightarrow> npfloat) \<Rightarrow> npfloat list \<Rightarrow> npfloat"

fun signbit :: "npfloat \<Rightarrow> bool" where
  "signbit (Fin a) = (a < 0)"
| "signbit NZero = True"
| "signbit PInf = False"
| "signbit NInf = True"
| "signbit NaN = False"

fun the_real :: "npfloat \<Rightarrow> real" where
  "the_real (Fin a) = a"
| "the_real _ = 0"

definition is_zero :: "npfloat \<Rightarrow> bool" where
  "is_zero x = (x = Fin 0 \<or> x = NZero)"

definition is_inf :: "npfloat \<Rightarrow> bool" where
  "is_inf x = (x = PInf \<or> x = NInf)"

definition is_finite :: "npfloat \<Rightarrow> bool" where
  "is_finite x = (case x of Fin a \<Rightarrow> True | NZero \<Rightarrow> True | _ \<Rightarrow> False)"

text \<open>\<^verbatim>\<open>x < 0\<close>: false of both zeros and of NaN.\<close>

definition is_negative :: "npfloat \<Rightarrow> bool" where
  "is_negative x = (case x of Fin a \<Rightarrow> a < 0 | NInf \<Rightarrow> True | _ \<Rightarrow> False)"

definition zero_of :: "bool \<Rightarrow> npfloat" where
  "zero_of negative = (if negative then NZero else Fin 0)"

definition inf_of :: "bool \<Rightarrow> npfloat" where
  "inf_of negative = (if negative then NInf else PInf)"

text \<open>The number stored for the exact nonzero result \<open>x\<close>: it keeps the sign of \<open>x\<close>.\<close>

definition np_round :: "arith \<Rightarrow> real \<Rightarrow> npfloat" where
  "np_round ar x =
     (case ar_rnd ar \<bar>x\<bar> of
        None \<Rightarrow> inf_of (x < 0)
      | Some y \<Rightarrow> (if y = 0 then zero_of (x < 0) else Fin (if x < 0 then - \<bar>y\<bar> else \<bar>y\<bar>)))"

fun np_neg :: "npfloat \<Rightarrow> npfloat" where
  "np_neg (Fin a) = (if a = 0 then NZero else Fin (- a))"
| "np_neg NZero = Fin 0"
| "np_neg PInf = NInf"
| "np_neg NInf = PInf"
| "np_neg NaN = NaN"

text \<open>
  A sum that is exactly zero is the positive zero, unless both terms are the negative zero;
  adding a zero to a nonzero number changes nothing.
\<close>

fun np_add :: "arith \<Rightarrow> npfloat \<Rightarrow> npfloat \<Rightarrow> npfloat" where
  "np_add ar NaN _ = NaN"
| "np_add ar _ NaN = NaN"
| "np_add ar PInf NInf = NaN"
| "np_add ar NInf PInf = NaN"
| "np_add ar PInf _ = PInf"
| "np_add ar _ PInf = PInf"
| "np_add ar NInf _ = NInf"
| "np_add ar _ NInf = NInf"
| "np_add ar NZero NZero = NZero"
| "np_add ar NZero (Fin b) = Fin b"
| "np_add ar (Fin a) NZero = Fin a"
| "np_add ar (Fin a) (Fin b) =
     (if a + b = 0 then Fin 0
      else if b = 0 then Fin a
      else if a = 0 then Fin b
      else np_round ar (a + b))"

text \<open>
  The sign of a product or a quotient is negative when the signs of the operands differ,
  also when the result is a zero or an infinity.
\<close>

definition np_mul :: "arith \<Rightarrow> npfloat \<Rightarrow> npfloat \<Rightarrow> npfloat" where
  "np_mul ar x y =
     (if x = NaN \<or> y = NaN then NaN
      else if (is_inf x \<and> is_zero y) \<or> (is_zero x \<and> is_inf y) then NaN
      else if is_inf x \<or> is_inf y then inf_of (signbit x \<noteq> signbit y)
      else if is_zero x \<or> is_zero y then zero_of (signbit x \<noteq> signbit y)
      else np_round ar (the_real x * the_real y))"

definition np_div :: "arith \<Rightarrow> npfloat \<Rightarrow> npfloat \<Rightarrow> npfloat" where
  "np_div ar x y =
     (if x = NaN \<or> y = NaN then NaN
      else if (is_inf x \<and> is_inf y) \<or> (is_zero x \<and> is_zero y) then NaN
      else if is_inf x \<or> is_zero y then inf_of (signbit x \<noteq> signbit y)
      else if is_zero x \<or> is_inf y then zero_of (signbit x \<noteq> signbit y)
      else np_round ar (the_real x / the_real y))"

text \<open>
  \<^verbatim>\<open>x ** 2.0\<close> on an array: numpy evaluates the scalar power \<open>2.0\<close> as the
  square, the rounded product \<open>x \<cdot> x\<close>.
\<close>

definition np_square :: "arith \<Rightarrow> npfloat \<Rightarrow> npfloat" where
  "np_square ar x = np_mul ar x x"

text \<open>
  The arithmetic that never rounds, with the sum taken from left to right.  It is used for
  examples on numbers where double precision arithmetic does not round either.
\<close>

definition exact_arith :: arith where
  "exact_arith = \<lparr>ar_rnd = Some, ar_sum = (\<lambda>add xs. foldl add 0 xs)\<rparr>"

section \<open>Errors, indexing and broadcasting\<close>

text \<open>
  Exceptions are values: a function that can raise returns \<open>error + 'a\<close>.  None of
  the components raises an exception of its own; the ones below come from a missing
  variable or option (\<open>KeyError\<close>), an index past the end of an array
  (\<open>IndexError\<close>), operands whose shapes do not broadcast or a slice of step zero
  (\<open>ValueError\<close>), an option value of the wrong kind (\<open>TypeError\<close>), and an option
  that was declared without a default and never set (\<open>RuntimeError\<close>).
\<close>

datatype error = KeyError | IndexError | ValueError | TypeError | RuntimeError

definition ebind :: "error + 'a \<Rightarrow> ('a \<Rightarrow> error + 'b) \<Rightarrow> error + 'b" where
  "ebind m f = (case m of Inl e \<Rightarrow> Inl e | Inr v \<Rightarrow> f v)"

text \<open>\<^verbatim>\<open>vec[name]\<close> on a vector of named variables.\<close>

definition getitem :: "'a option \<Rightarrow> error + 'a" where
  "getitem v = (case v of None \<Rightarrow> Inl KeyError | Some a \<Rightarrow> Inr a)"

text \<open>\<^verbatim>\<open>a[i]\<close> for \<open>i\<close> from a \<^verbatim>\<open>range\<close> (never negative).\<close>

definition index :: "'a list \<Rightarrow> nat \<Rightarrow> error + 'a" where
  "index xs i = (if i < length xs then Inr (xs ! i) else Inl IndexError)"

text \<open>\<^verbatim>\<open>a[i] = v\<close>.\<close>

definition setindex :: "'a list \<Rightarrow> nat \<Rightarrow> 'a \<Rightarrow> error + 'a list" where
  "setindex xs i v = (if i < length xs then Inr (xs[i := v]) else Inl IndexError)"

text \<open>
  An elementwise operation on two one-dimensional arrays: equal lengths, or one of
  them of length one, which is stretched.
\<close>

definition np_binop ::
  "(npfloat \<Rightarrow> npfloat \<Rightarrow> npfloat) \<Rightarrow> npfloat list \<Rightarrow> npfloat list \<Rightarrow> error + npfloat list" where
  "np_binop f xs ys =
     (if length xs = length ys then Inr (map2 f xs ys)
      else if length xs = 1 then Inr (map (f (hd xs)) ys)
      else if length ys = 1 then Inr (map (\<lambda>x. f x (hd ys)) xs)
      else Inl ValueError)"

text \<open>\<^verbatim>\<open>a += b\<close> in place: \<open>b\<close> is stretched to the shape of \<open>a\<close>, never the reverse.\<close>

definition np_iadd :: "arith \<Rightarrow> npfloat list \<Rightarrow> npfloat list \<Rightarrow> error + npfloat list" where
  "np_iadd ar a b =
     (if length b = length a then Inr (map2 (np_add ar) a b)
      else if length b = 1 then Inr (map (\<lambda>x. np_add ar x (hd b)) a)
      else Inl ValueError)"

text \<open>\<^verbatim>\<open>vec[name] = b\<close>: the variable keeps its declared shape.\<close>

definition np_assign :: "npfloat list \<Rightarrow> npfloat list \<Rightarrow> error + npfloat list" where
  "np_assign a b =
     (if length b = length a then Inr b
      else if length b = 1 then Inr (replicate (length a) (hd b))
      else Inl ValueError)"

text \<open>An array times a scalar, and \<^verbatim>\<open>np.sum\<close>.\<close>

definition np_scale :: "arith \<Rightarrow> npfloat list \<Rightarrow> npfloat \<Rightarrow> npfloat list" where
  "np_scale ar xs s = map (\<lambda>x. np_mul ar x s) xs"

definition np_sum :: "arith \<Rightarrow> npfloat list \<Rightarrow> npfloat" where
  "np_sum ar xs = ar_sum ar (np_add ar) xs"

section \<open>Vectors of named variables\<close>

text \<open>
  \<^verbatim>\<open>inputs\<close>, \<^verbatim>\<open>outputs\<close>, \<^verbatim>\<open>d_inputs\<close> and \<^verbatim>\<open>d_outputs\<close> map
  variable names to arrays.  Every variable that a component of this file declares in its
  \<^verbatim>\<open>setup\<close> is a field; \<open>None\<close> is a name the vector does not hold
  (\<^verbatim>\<open>name in vec\<close> is false).  \<^verbatim>\<open>mode_shape\<close> is two-dimensional, a list of rows.
\<close>

record vector =
  v_dv_struct :: "npfloat list option"
  v_mode_shape :: "npfloat list list option"
  v_modal_mass :: "npfloat list option"
  v_modal_stiffness :: "npfloat list option"
  v_x_s0 :: "npfloat list option"
  v_k :: "npfloat list option"
  v_mf :: "npfloat list option"
  v_z :: "npfloat list option"
  v_f_s :: "npfloat list option"
  v_u_s :: "npfloat list option"

definition no_vars :: vector where
  "no_vars = \<lparr>v_dv_struct = None, v_mode_shape = None, v_modal_mass = None,
     v_modal_stiffness = None, v_x_s0 = None, v_k = None, v_mf = None, v_z = None,
     v_f_s = None, v_u_s = None\<rparr>"

section \<open>ModalSolver\<close>

text \<open>
  \<^verbatim>\<open>
  def compute(self,inputs,outputs):
      k = inputs['k']
      outputs['z'] = inputs['mf'] / inputs['k']
  \<close>
\<close>

definition ModalSolver_compute :: "arith \<Rightarrow> vector \<Rightarrow> vector \<Rightarrow> error + vector" where
  "ModalSolver_compute ar inputs outputs =
     ebind (getitem (v_k inputs)) (\<lambda>k.
     ebind (getitem (v_mf inputs)) (\<lambda>mf.
     ebind (getitem (v_k inputs)) (\<lambda>k'.
     ebind (np_binop (np_div ar) mf k') (\<lambda>q.
     ebind (getitem (v_z outputs)) (\<lambda>z.
     ebind (np_assign z q) (\<lambda>z'.
     Inr (outputs\<lparr>v_z := Some z'\<rparr>)))))))"

text \<open>
  \<^verbatim>\<open>
  def compute_jacvec_product(self,inputs,d_inputs,d_outputs,mode):
      if mode == 'fwd':
          if 'z' in d_outputs:
              if 'mf' in d_inputs:
                  d_outputs['z'] += d_inputs['mf'] / inputs['k']
              if 'k' in d_inputs:
                  d_outputs['z'] += - inputs['mf'] / (inputs['k']**2.0) * d_inputs['k']
      if mode == 'rev':
          if 'z' in d_outputs:
              if 'mf' in d_inputs:
                  d_inputs['mf'] += d_outputs['z'] / inputs['k']
              if 'k' in d_inputs:
                  d_inputs['k'] += - inputs['mf'] / (inputs['k']**2.0) * d_outputs['z']
  \<close>
  The unary minus binds to \<^verbatim>\<open>inputs['mf']\<close>; the quotient is formed before the product.
\<close>

definition dz_dk :: "arith \<Rightarrow> vector \<Rightarrow> npfloat list \<Rightarrow> error + npfloat list" where
  "dz_dk ar inputs seed =
     ebind (getitem (v_mf inputs)) (\<lambda>mf.
     ebind (getitem (v_k inputs)) (\<lambda>k.
     ebind (np_binop (np_div ar) (map np_neg mf) (map (np_square ar) k)) (\<lambda>q.
     np_binop (np_mul ar) q seed)))"

definition ModalSolver_fwd_mf :: "arith \<Rightarrow> vector \<Rightarrow> vector \<Rightarrow> vector \<Rightarrow> error + vector" where
  "ModalSolver_fwd_mf ar inputs d_inputs d_outputs =
     ebind (getitem (v_z d_outputs)) (\<lambda>dz.
     ebind (getitem (v_mf d_inputs)) (\<lambda>dmf.
     ebind (getitem (v_k inputs)) (\<lambda>k.
     ebind (np_binop (np_div ar) dmf k) (\<lambda>t.
     ebind (np_iadd ar dz t) (\<lambda>dz'.
     Inr (d_outputs\<lparr>v_z := Some dz'\<rparr>))))))"

definition ModalSolver_fwd_k :: "arith \<Rightarrow> vector \<Rightarrow> vector \<Rightarrow> vector \<Rightarrow> error + vector" where
  "ModalSolver_fwd_k ar inputs d_inputs d_outputs =
     ebind (getitem (v_z d_outputs)) (\<lambda>dz.
     ebind (getitem (v_k d_inputs)) (\<lambda>dk.
     ebind (dz_dk ar inputs dk) (\<lambda>t.
     ebind (np_iadd ar dz t) (\<lambda>dz'.
     Inr (d_outputs\<lparr>v_z := Some dz'\<rparr>)))))"

definition ModalSolver_rev_mf :: "arith \<Rightarrow> vector \<Rightarrow> vector \<Rightarrow> vector \<Rightarrow> error + vector" where
  "ModalSolver_rev_mf ar inputs d_inputs d_outputs =
     ebind (getitem (v_mf d_inputs)) (\<lambda>dmf.
     ebind (getitem (v_z d_outputs)) (\<lambda>dz.
     ebind (getitem (v_k inputs)) (\<lambda>k.
     ebind (np_binop (np_div ar) dz k) (\<lambda>t.
     ebind (np_iadd ar dmf t) (\<lambda>dmf'.
     Inr (d_inputs\<lparr>v_mf := Some dmf'\<rparr>))))))"

definition ModalSolver_rev_k :: "arith \<Rightarrow> vector \<Rightarrow> vector \<Rightarrow> vector \<Rightarrow> error + vector" where
  "ModalSolver_rev_k ar inputs d_inputs d_outputs =
     ebind (getitem (v_k d_inputs)) (\<lambda>dk.
     ebind (getitem (v_z d_outputs)) (\<lambda>dz.
     ebind (dz_dk ar inputs dz) (\<lambda>t.
     ebind (np_iadd ar dk t) (\<lambda>dk'.
     Inr (d_inputs\<lparr>v_k := Some dk'\<rparr>)))))"

definition ModalSolver_compute_jacvec_product ::
  "arith \<Rightarrow> vector \<Rightarrow> vector \<Rightarrow> vector \<Rightarrow> string \<Rightarrow> error + vector \<times> vector" where
  "ModalSolver_compute_jacvec_product ar inputs d_inputs d_outputs mode =
     ebind
       (if mode = ''fwd'' \<and> v_z d_outputs \<noteq> None then
          ebind
            (if v_mf d_inputs \<noteq> None then ModalSolver_fwd_mf ar inputs d_inputs d_outputs
             else Inr d_outputs)
            (\<lambda>d_outputs1.
               if v_k d_inputs \<noteq> None then ModalSolver_fwd_k ar inputs d_inputs d_outputs1
               else Inr d_outputs1)
        else Inr d_outputs)
       (\<lambda>d_outputs'.
     ebind
       (if mode = ''rev'' \<and> v_z d_outputs' \<noteq> None then
          ebind
            (if v_mf d_inputs \<noteq> None then ModalSolver_rev_mf ar inputs d_inputs d_outputs'
             else Inr d_inputs)
            (\<lambda>d_inputs1.
               if v_k d_inputs1 \<noteq> None then ModalSolver_rev_k ar inputs d_inputs1 d_outputs'
               else Inr d_inputs1)
        else Inr d_inputs)
       (\<lambda>d_inputs'. Inr (d_inputs', d_outputs')))"

section \<open>Options and component instances\<close>

text \<open>
  A component's \<^verbatim>\<open>self.options\<close> is the option dictionary of the component base
  class of the framework, which is not part of this repository.  It is modelled as a map
  from the declared option names to their values: \<^verbatim>\<open>declare\<close> adds a name,
  the constructor's keyword arguments set declared names, and reading a name that was not
  declared raises \<open>KeyError\<close>.  The options that the base class itself declares are a
  parameter (\<open>base\<close>) of each \<^verbatim>\<open>initialize\<close>.
\<close>

datatype opt_val = Required | IntVal int | SizesFn nat nat

type_synonym options = "string \<rightharpoonup> opt_val"

definition options_getitem :: "options \<Rightarrow> string \<Rightarrow> error + opt_val" where
  "options_getitem opts name =
     (case opts name of None \<Rightarrow> Inl KeyError
      | Some Required \<Rightarrow> Inl RuntimeError
      | Some v \<Rightarrow> Inr v)"

definition options_setitem :: "options \<Rightarrow> string \<Rightarrow> opt_val \<Rightarrow> error + options" where
  "options_setitem opts name v =
     (if opts name = None then Inl KeyError else Inr (opts(name \<mapsto> v)))"

text \<open>\<^verbatim>\<open>range(n)\<close> of an option value, and the call of a \<^verbatim>\<open>get_modal_sizes\<close> option.\<close>

definition py_range :: "opt_val \<Rightarrow> error + nat list" where
  "py_range v = (case v of IntVal n \<Rightarrow> Inr [0..<nat n] | _ \<Rightarrow> Inl TypeError)"

definition call_sizes :: "opt_val \<Rightarrow> error + nat \<times> nat" where
  "call_sizes v = (case v of SizesFn nm ns \<Rightarrow> Inr (nm, ns) | _ \<Rightarrow> Inl TypeError)"

text \<open>
  \<^verbatim>\<open>ModalStructAssembler.get_modal_sizes\<close> returns
  \<^verbatim>\<open>self.nmodes, self.nnodes*3\<close>.
\<close>

record assembler =
  asm_nmodes :: nat
  asm_nnodes :: nat

definition get_modal_sizes :: "assembler \<Rightarrow> nat \<times> nat" where
  "get_modal_sizes a = (asm_nmodes a, asm_nnodes a * 3)"

text \<open>
  A component after \<^verbatim>\<open>setup\<close>: its options and the attributes
  \<^verbatim>\<open>self.nmodes\<close> and \<^verbatim>\<open>self.node_size\<close>.
\<close>

record component =
  self_options :: options
  self_nmodes :: nat
  self_node_size :: nat

text \<open>
  \<^verbatim>\<open>ModalSolver.initialize\<close> declares \<^verbatim>\<open>nmodes\<close> with default 1;
  \<^verbatim>\<open>add_fsi_components\<close> builds \<^verbatim>\<open>ModalSolver(nmodes=self.nmodes)\<close>.
\<close>

definition ModalSolver_initialize :: "options \<Rightarrow> options" where
  "ModalSolver_initialize base = base(''nmodes'' \<mapsto> IntVal 1)"

definition ModalSolver_init :: "options \<Rightarrow> assembler \<Rightarrow> error + options" where
  "ModalSolver_init base a =
     options_setitem (ModalSolver_initialize base) ''nmodes'' (IntVal (int (asm_nmodes a)))"

text \<open>
  \<^verbatim>\<open>ModalForces.initialize\<close> and \<^verbatim>\<open>ModalDisplacements.initialize\<close> declare
  \<^verbatim>\<open>get_modal_sizes\<close> and nothing else; \<^verbatim>\<open>add_fsi_components\<close> builds
  \<^verbatim>\<open>ModalForces(get_modal_sizes=self.get_modal_sizes)\<close> and
  \<^verbatim>\<open>ModalDisplacements(get_modal_sizes=self.get_modal_sizes)\<close>.  Each \<^verbatim>\<open>setup\<close>
  runs \<^verbatim>\<open>self.nmodes, self.node_size = self.options['get_modal_sizes']()\<close>.
\<close>

definition ModalForces_initialize :: "options \<Rightarrow> options" where
  "ModalForces_initialize base = base(''get_modal_sizes'' \<mapsto> Required)"

definition ModalForces_init :: "options \<Rightarrow> assembler \<Rightarrow> error + options" where
  "ModalForces_init base a =
     options_setitem (ModalForces_initialize base) ''get_modal_sizes''
       (SizesFn (fst (get_modal_sizes a)) (snd (get_modal_sizes a)))"

definition ModalForces_setup :: "options \<Rightarrow> error + component" where
  "ModalForces_setup opts =
     ebind (options_getitem opts ''get_modal_sizes'') (\<lambda>g.
     ebind (call_sizes g) (\<lambda>sizes.
     Inr \<lparr>self_options = opts, self_nmodes = fst sizes, self_node_size = snd sizes\<rparr>))"

definition ModalDisplacements_initialize :: "options \<Rightarrow> options" where
  "ModalDisplacements_initialize base = base(''get_modal_sizes'' \<mapsto> Required)"

definition ModalDisplacements_init :: "options \<Rightarrow> assembler \<Rightarrow> error + options" where
  "ModalDisplacements_init base a =
     options_setitem (ModalDisplacements_initialize base) ''get_modal_sizes''
       (SizesFn (fst (get_modal_sizes a)) (snd (get_modal_sizes a)))"

definition ModalDisplacements_setup :: "options \<Rightarrow> error + component" where
  "ModalDisplacements_setup opts =
     ebind (options_getitem opts ''get_modal_sizes'') (\<lambda>g.
     ebind (call_sizes g) (\<lambda>sizes.
     Inr \<lparr>self_options = opts, self_nmodes = fst sizes, self_node_size = snd sizes\<rparr>))"

section \<open>ModalForces\<close>



text \<open>
  \<^verbatim>\<open>
  def compute_jacvec_product(self,inputs,d_inputs,d_outputs,mode):
      if mode=='fwd':
          if 'mf' in d_outputs:
              if 'f_s' in d_inputs:
                  for imode in range(self.options['nmodes']):
                      d_outputs['mf'][imode] += np.sum(inputs['mode_shape'][imode,:] * d_inputs['f_s'][:])
      if mode=='rev':
          if 'mf' in d_outputs:
              if 'f_s' in d_inputs:
                  for imode in range(self.options['nmodes']):
                      d_inputs['f_s'][:] += inputs['mode_shape'][imode,:] * d_outputs['mf'][imode]
  \<close>
\<close>

fun ModalForces_fwd_loop :: "arith \<Rightarrow> vector \<Rightarrow> vector \<Rightarrow> nat list \<Rightarrow> vector \<Rightarrow> error + vector" where
  "ModalForces_fwd_loop ar inputs d_inputs [] d_outputs = Inr d_outputs"
| "ModalForces_fwd_loop ar inputs d_inputs (imode # rest) d_outputs =
     ebind (getitem (v_mf d_outputs)) (\<lambda>dmf.
     ebind (index dmf imode) (\<lambda>old.
     ebind (getitem (v_mode_shape inputs)) (\<lambda>M.
     ebind (index M imode) (\<lambda>row.
     ebind (getitem (v_f_s d_inputs)) (\<lambda>df.
     ebind (np_binop (np_mul ar) row df) (\<lambda>p.
     ModalForces_fwd_loop ar inputs d_inputs rest
       (d_outputs\<lparr>v_mf := Some (dmf[imode := np_add ar old (np_sum ar p)])\<rparr>)))))))"

fun ModalForces_rev_loop :: "arith \<Rightarrow> vector \<Rightarrow> vector \<Rightarrow> nat list \<Rightarrow> vector \<Rightarrow> error + vector" where
  "ModalForces_rev_loop ar inputs d_outputs [] d_inputs = Inr d_inputs"
| "ModalForces_rev_loop ar inputs d_outputs (imode # rest) d_inputs =
     ebind (getitem (v_f_s d_inputs)) (\<lambda>df.
     ebind (getitem (v_mode_shape inputs)) (\<lambda>M.
     ebind (index M imode) (\<lambda>row.
     ebind (getitem (v_mf d_outputs)) (\<lambda>dmf.
     ebind (index dmf imode) (\<lambda>s.
     ebind (np_iadd ar df (np_scale ar row s)) (\<lambda>df'.
     ModalForces_rev_loop ar inputs d_outputs rest (d_inputs\<lparr>v_f_s := Some df'\<rparr>)))))))"

definition ModalForces_compute_jacvec_product ::
  "arith \<Rightarrow> component \<Rightarrow> vector \<Rightarrow> vector \<Rightarrow> vector \<Rightarrow> string \<Rightarrow> error + vector \<times> vector" where
  "ModalForces_compute_jacvec_product ar self inputs d_inputs d_outputs mode =
     ebind
       (if mode = ''fwd'' \<and> v_mf d_outputs \<noteq> None \<and> v_f_s d_inputs \<noteq> None then
          ebind (options_getitem (self_options self) ''nmodes'') (\<lambda>n.
          ebind (py_range n) (\<lambda>imodes.
          ModalForces_fwd_loop ar inputs d_inputs imodes d_outputs))
        else Inr d_outputs)
       (\<lambda>d_outputs'.
     ebind
       (if mode = ''rev'' \<and> v_mf d_outputs' \<noteq> None \<and> v_f_s d_inputs \<noteq> None then
          ebind (options_getitem (self_options self) ''nmodes'') (\<lambda>n.
          ebind (py_range n) (\<lambda>imodes.
          ModalForces_rev_loop ar inputs d_outputs' imodes d_inputs))
        else Inr d_inputs)
       (\<lambda>d_inputs'. Inr (d_inputs', d_outputs')))"

section \<open>ModalDisplacements\<close>

text \<open>
  \<^verbatim>\<open>
  def compute(self,inputs,outputs):
      outputs['u_s'][:] = 0.0
      for imode in range(self.nmodes):
          outputs['u_s'][:] += inputs['mode_shape'][imode,:] * inputs['z'][imode]
  \<close>
\<close>

fun ModalDisplacements_compute_loop :: "arith \<Rightarrow> vector \<Rightarrow> nat list \<Rightarrow> vector \<Rightarrow> error + vector" where
  "ModalDisplacements_compute_loop ar inputs [] outputs = Inr outputs"
| "ModalDisplacements_compute_loop ar inputs (imode # rest) outputs =
     ebind (getitem (v_u_s outputs)) (\<lambda>u.
     ebind (getitem (v_mode_shape inputs)) (\<lambda>M.
     ebind (index M imode) (\<lambda>row.
     ebind (getitem (v_z inputs)) (\<lambda>z.
     ebind (index z imode) (\<lambda>s.
     ebind (np_iadd ar u (np_scale ar row s)) (\<lambda>u'.
     ModalDisplacements_compute_loop ar inputs rest (outputs\<lparr>v_u_s := Some u'\<rparr>)))))))"

definition ModalDisplacements_compute :: "arith \<Rightarrow> component \<Rightarrow> vector \<Rightarrow> vector \<Rightarrow> error + vector" where
  "ModalDisplacements_compute ar self inputs outputs =
     ebind (getitem (v_u_s outputs)) (\<lambda>u.
     ModalDisplacements_compute_loop ar inputs [0..<self_nmodes self]
       (outputs\<lparr>v_u_s := Some (replicate (length u) 0)\<rparr>))"

text \<open>
  \<^verbatim>\<open>
  def compute_jacvec_product(self,inputs,d_inputs,d_outputs,mode):
      if mode=='fwd':
          if 'u_s' in d_outputs:
              if 'z' in d_inputs:
                  for imode in range(self.options['nmodes']):
                      d_outputs['u_s'][:] += inputs['mode_shape'][imode,:] * d_inputs['z'][imode]
      if mode=='rev':
          if 'u_s' in d_outputs:
              if 'z' in d_inputs:
                  for imode in range(self.options['nmodes']):
                      d_inputs['z'][imode] += np.sum(inputs['mode_shape'][imode,:] * d_outputs['u_s'][:])
  \<close>
\<close>

fun ModalDisplacements_fwd_loop ::
  "arith \<Rightarrow> vector \<Rightarrow> vector \<Rightarrow> nat list \<Rightarrow> vector \<Rightarrow> error + vector" where
  "ModalDisplacements_fwd_loop ar inputs d_inputs [] d_outputs = Inr d_outputs"
| "ModalDisplacements_fwd_loop ar inputs d_inputs (imode # rest) d_outputs =
     ebind (getitem (v_u_s d_outputs)) (\<lambda>du.
     ebind (getitem (v_mode_shape inputs)) (\<lambda>M.
     ebind (index M imode) (\<lambda>row.
     ebind (getitem (v_z d_inputs)) (\<lambda>dz.
     ebind (index dz imode) (\<lambda>s.
     ebind (np_iadd ar du (np_scale ar row s)) (\<lambda>du'.
     ModalDisplacements_fwd_loop ar inputs d_inputs rest (d_outputs\<lparr>v_u_s := Some du'\<rparr>)))))))"

fun ModalDisplacements_rev_loop ::
  "arith \<Rightarrow> vector \<Rightarrow> vector \<Rightarrow> nat list \<Rightarrow> vector \<Rightarrow> error + vector" where
  "ModalDisplacements_rev_loop ar inputs d_outputs [] d_inputs = Inr d_inputs"
| "ModalDisplacements_rev_loop ar inputs d_outputs (imode # rest) d_inputs =
     ebind (getitem (v_z d_inputs)) (\<lambda>dz.
     ebind (index dz imode) (\<lambda>old.
     ebind (getitem (v_mode_shape inputs)) (\<lambda>M.
     ebind (index M imode) (\<lambda>row.
     ebind (getitem (v_u_s d_outputs)) (\<lambda>du.
     ebind (np_binop (np_mul ar) row du) (\<lambda>p.
     ModalDisplacements_rev_loop ar inputs d_outputs rest
       (d_inputs\<lparr>v_z := Some (dz[imode := np_add ar old (np_sum ar p)])\<rparr>)))))))"

definition ModalDisplacements_compute_jacvec_product ::
  "arith \<Rightarrow> component \<Rightarrow> vector \<Rightarrow> vector \<Rightarrow> vector \<Rightarrow> string \<Rightarrow> error + vector \<times> vector" where
  "ModalDisplacements_compute_jacvec_product ar self inputs d_inputs d_outputs mode =
     ebind
       (if mode = ''fwd'' \<and> v_u_s d_outputs \<noteq> None \<and> v_z d_inputs \<noteq> None then
          ebind (options_getitem (self_options self) ''nmodes'') (\<lambda>n.
          ebind (py_range n) (\<lambda>imodes.
          ModalDisplacements_fwd_loop ar inputs d_inputs imodes d_outputs))
        else Inr d_outputs)
       (\<lambda>d_outputs'.
     ebind
       (if mode = ''rev'' \<and> v_u_s d_outputs' \<noteq> None \<and> v_z d_inputs \<noteq> None then
          ebind (options_getitem (self_options self) ''nmodes'') (\<lambda>n.
          ebind (py_range n) (\<lambda>imodes.
          ModalDisplacements_rev_loop ar inputs d_outputs' imodes d_inputs))
        else Inr d_inputs)
       (\<lambda>d_inputs'. Inr (d_inputs', d_outputs')))"

section \<open>ModalDecomp\<close>

text \<open>
  Strided slices \<^verbatim>\<open>a[start::step]\<close> of a one-dimensional array, read and assigned.
  An assignment needs as many values as the slice has places, or a single value.
\<close>

definition slice_indices :: "nat \<Rightarrow> nat \<Rightarrow> nat \<Rightarrow> nat list" where
  "slice_indices n start step =
     map (\<lambda>j. start + j * step) [0..<(n - start + step - 1) div step]"

definition getslice :: "'a list \<Rightarrow> nat \<Rightarrow> nat \<Rightarrow> error + 'a list" where
  "getslice xs start step =
     (if step = 0 then Inl ValueError
      else Inr (map ((!) xs) (slice_indices (length xs) start step)))"

definition setslice :: "'a list \<Rightarrow> nat \<Rightarrow> nat \<Rightarrow> 'a list \<Rightarrow> error + 'a list" where
  "setslice xs start step vs =
     (if step = 0 then Inl ValueError
      else if length vs = length (slice_indices (length xs) start step)
        then Inr (fold (\<lambda>(i, v) ys. ys[i := v]) (zip (slice_indices (length xs) start step) vs) xs)
      else if length vs = 1
        then Inr (fold (\<lambda>i ys. ys[i := hd vs]) (slice_indices (length xs) start step) xs)
      else Inl ValueError)"

text \<open>
  The attributes of a \<^verbatim>\<open>ModalDecomp\<close> after \<^verbatim>\<open>setup\<close> that
  \<^verbatim>\<open>compute\<close> reads: \<^verbatim>\<open>self.nmodes\<close>, \<^verbatim>\<open>self.ndof\<close> and the array of
  \<^verbatim>\<open>self.xpts\<close>.
\<close>

record decomp =
  dec_nmodes :: nat
  dec_ndof :: nat
  dec_xpts :: "npfloat list"

text \<open>
  The finite-element library that assembles the matrices and runs the frequency analysis
  is not part of this repository.  What \<^verbatim>\<open>compute\<close> reads from it is a parameter:
  for the design variables handed to \<^verbatim>\<open>setDesignVars\<close> and a mode index, the pair
  \<^verbatim>\<open>eig, err\<close> that \<^verbatim>\<open>extractEigenvector\<close> returns and the array of
  \<^verbatim>\<open>self.vec\<close> that it fills.
\<close>

type_synonym eigensolver = "npfloat list \<Rightarrow> nat \<Rightarrow> npfloat \<times> npfloat \<times> npfloat list"

text \<open>
  \<^verbatim>\<open>
  outputs['x_s0'] = self.xpts.getArray()
  for imode in range(self.nmodes):
      eig, err = self.freq.extractEigenvector(imode,self.vec)
      outputs['modal_mass'][imode] = 1.0
      outputs['modal_stiffness'][imode] = eig
      for idof in range(3):
          outputs['mode_shape'][imode,idof::3] = self.vec.getArray()[idof::self.ndof]
  \<close>
\<close>

fun ModalDecomp_scatter ::
  "npfloat list \<Rightarrow> nat \<Rightarrow> nat \<Rightarrow> nat list \<Rightarrow> vector \<Rightarrow> error + vector" where
  "ModalDecomp_scatter vec ndof imode [] outputs = Inr outputs"
| "ModalDecomp_scatter vec ndof imode (idof # rest) outputs =
     ebind (getslice vec idof ndof) (\<lambda>vals.
     ebind (getitem (v_mode_shape outputs)) (\<lambda>M.
     ebind (index M imode) (\<lambda>row.
     ebind (setslice row idof 3 vals) (\<lambda>row'.
     ModalDecomp_scatter vec ndof imode rest
       (outputs\<lparr>v_mode_shape := Some (M[imode := row'])\<rparr>)))))"

fun ModalDecomp_compute_loop ::
  "decomp \<Rightarrow> (nat \<Rightarrow> npfloat \<times> npfloat \<times> npfloat list) \<Rightarrow> nat list \<Rightarrow> vector \<Rightarrow> error + vector" where
  "ModalDecomp_compute_loop self extractEigenvector [] outputs = Inr outputs"
| "ModalDecomp_compute_loop self extractEigenvector (imode # rest) outputs =
     (case extractEigenvector imode of (eig, err, vec) \<Rightarrow>
        ebind (getitem (v_modal_mass outputs)) (\<lambda>mm.
        ebind (setindex mm imode 1) (\<lambda>mm'.
        ebind (getitem (v_modal_stiffness outputs)) (\<lambda>ms.
        ebind (setindex ms imode eig) (\<lambda>ms'.
        ebind (ModalDecomp_scatter vec (dec_ndof self) imode [0..<3]
                 (outputs\<lparr>v_modal_mass := Some mm', v_modal_stiffness := Some ms'\<rparr>)) (\<lambda>outputs'.
        ModalDecomp_compute_loop self extractEigenvector rest outputs'))))))"

definition ModalDecomp_compute ::
  "decomp \<Rightarrow> eigensolver \<Rightarrow> vector \<Rightarrow> vector \<Rightarrow> error + vector" where
  "ModalDecomp_compute self tacs inputs outputs =
     ebind (getitem (v_dv_struct inputs)) (\<lambda>dv.
     ebind (getitem (v_x_s0 outputs)) (\<lambda>x0.
     ebind (np_assign x0 (dec_xpts self)) (\<lambda>x0'.
     ModalDecomp_compute_loop self (tacs dv) [0..<dec_nmodes self]
       (outputs\<lparr>v_x_s0 := Some x0'\<rparr>))))"

section \<open>Basic facts\<close>

lemma ebind_Inr [simp]: "ebind (Inr x) f = f x"
  and ebind_Inl [simp]: "ebind (Inl e) f = Inl e"
  by (simp_all add: ebind_def)

lemma getitem_simps [simp]: "getitem (Some a) = Inr a" "getitem None = Inl KeyError"
  by (simp_all add: getitem_def)

lemma np_binop_same_length [simp]:
  "length xs = length ys \<Longrightarrow> np_binop f xs ys = Inr (map2 f xs ys)"
  by (simp add: np_binop_def)

lemma np_iadd_same_length [simp]:
  "length b = length a \<Longrightarrow> np_iadd ar a b = Inr (map2 (np_add ar) a b)"
  by (simp add: np_iadd_def)

lemma np_assign_same_length [simp]:
  "length b = length a \<Longrightarrow> np_assign a b = Inr b"
  by (simp add: np_assign_def)

lemma index_simps [simp]: "i < length xs \<Longrightarrow> index xs i = Inr (xs ! i)"
  by (simp add: index_def)

lemma setindex_simps [simp]: "i < length xs \<Longrightarrow> setindex xs i v = Inr (xs[i := v])"
  by (simp add: setindex_def)

lemma length_fold_update [simp]: "length (fold (\<lambda>i ys. ys[i := g i]) is xs) = length xs"
  by (induction "is" arbitrary: xs) simp_all

lemma fold_update_upt_nth:
  "i < length xs \<Longrightarrow>
     fold (\<lambda>i ys. ys[i := g i]) [0..<n] xs ! i = (if i < n then g i else xs ! i)"
  by (induction n) (simp_all add: nth_list_update less_Suc_eq)


text \<open>
  Signs and special values.  A rounded result is never a NaN and has the sign of the exact
  result; negation commutes with rounding, so a sign can be moved out of a product or a
  quotient.
\<close>

lemma np_round_not_NaN [simp]: "np_round ar x \<noteq> NaN"
  by (simp add: np_round_def inf_of_def zero_of_def split: option.splits)

lemma signbit_np_round [simp]: "x \<noteq> 0 \<Longrightarrow> signbit (np_round ar x) = (x < 0)"
  by (auto simp: np_round_def inf_of_def zero_of_def split: option.splits)

lemma signbit_zero_of [simp]: "signbit (zero_of s) = s"
  and signbit_inf_of [simp]: "signbit (inf_of s) = s"
  by (simp_all add: zero_of_def inf_of_def)

lemma zero_of_not_NaN [simp]: "zero_of s \<noteq> NaN" "inf_of s \<noteq> NaN"
  by (simp_all add: zero_of_def inf_of_def)

lemma np_round_exact: "x \<noteq> 0 \<Longrightarrow> ar_rnd ar \<bar>x\<bar> = Some \<bar>x\<bar> \<Longrightarrow> np_round ar x = Fin x"
  by (simp add: np_round_def)

lemma np_div_by_zero: "is_zero y \<Longrightarrow> np_div ar x y \<in> {PInf, NInf, NaN}"
  by (auto simp: np_div_def inf_of_def)

lemma np_div_Fin:
  "m \<noteq> 0 \<Longrightarrow> \<kappa> \<noteq> 0 \<Longrightarrow> np_div ar (Fin m) (Fin \<kappa>) = np_round ar (m / \<kappa>)"
  by (simp add: np_div_def is_zero_def is_inf_def)

lemma np_div_negative:
  assumes "is_negative y" and "is_finite x"
  shows "np_div ar x y \<noteq> NaN \<and> signbit (np_div ar x y) = (\<not> signbit x)"
proof (cases "is_zero x")
  case True
  with assms show ?thesis
    by (auto simp: np_div_def is_zero_def is_inf_def is_negative_def is_finite_def
        split: npfloat.splits)
next
  case False
  with assms obtain a where x: "x = Fin a" "a \<noteq> 0"
    by (auto simp: is_finite_def is_zero_def split: npfloat.splits)
  from assms consider "y = NInf" | b where "y = Fin b" "b < 0"
    by (auto simp: is_negative_def split: npfloat.splits)
  then show ?thesis
  proof cases
    case 1
    with x show ?thesis by (simp add: np_div_def is_zero_def is_inf_def)
  next
    case 2
    with x have "a / b \<noteq> 0" by simp
    with x 2 show ?thesis
      by (simp add: np_div_def is_zero_def is_inf_def divide_less_0_iff not_less) (use x in auto)
  qed
qed

lemma np_neg_zero_of [simp]: "np_neg (zero_of s) = zero_of (\<not> s)"
  and np_neg_inf_of [simp]: "np_neg (inf_of s) = inf_of (\<not> s)"
  by (simp_all add: zero_of_def inf_of_def)


lemma np_neg_props [simp]:
  "np_neg x = NaN \<longleftrightarrow> x = NaN"
  "is_zero (np_neg x) = is_zero x"
  "is_inf (np_neg x) = is_inf x"
  by (cases x; simp add: is_zero_def is_inf_def)+


lemma the_real_np_neg [simp]: "the_real (np_neg x) = - the_real x"
  by (cases x) simp_all




section \<open>The modal equilibrium solve\<close>

text \<open>
  Claim C5.  For stiffness and modal force arrays of the same length, every stiffness entry
  nonzero, \<^verbatim>\<open>ModalSolver.compute\<close> raises nothing and stores in \<^verbatim>\<open>z\<close> the array of
  the quotients \<open>mf[i] / k[i]\<close>, the division being that of the array elements: on finite
  nonzero entries it is the quotient of the reals, rounded, and that quotient itself where it
  needs no rounding.  A negative \<open>k[i]\<close> is accepted and, with a finite \<open>mf[i]\<close>, gives a
  \<open>z[i]\<close> that is a number of the sign opposite to that of \<open>mf[i]\<close>; the sign is the
  sign bit, which a zero has too (a quotient too small to be stored is a zero of that sign).
\<close>

theorem ModalSolver_compute_quotient:
  assumes "v_k inputs = Some kv" and "v_mf inputs = Some mfv" and "v_z outputs = Some zold"
    and "length mfv = length kv" and "length zold = length kv"
    and "\<forall>i<length kv. \<not> is_zero (kv ! i)"
  shows "\<exists>zv. ModalSolver_compute ar inputs outputs = Inr (outputs\<lparr>v_z := Some zv\<rparr>) \<and>
           length zv = length kv \<and>
           (\<forall>i<length kv. zv ! i = np_div ar (mfv ! i) (kv ! i) \<and>
              (\<forall>m \<kappa>. mfv ! i = Fin m \<and> kv ! i = Fin \<kappa> \<and> m \<noteq> 0 \<longrightarrow>
                 zv ! i = np_round ar (m / \<kappa>) \<and>
                 (ar_rnd ar \<bar>m / \<kappa>\<bar> = Some \<bar>m / \<kappa>\<bar> \<longrightarrow> zv ! i = Fin (m / \<kappa>))) \<and>
              (is_negative (kv ! i) \<and> is_finite (mfv ! i) \<longrightarrow>
                 zv ! i \<noteq> NaN \<and> signbit (zv ! i) = (\<not> signbit (mfv ! i))))"
proof (intro exI conjI allI impI)
  show "ModalSolver_compute ar inputs outputs =
      Inr (outputs\<lparr>v_z := Some (map2 (np_div ar) mfv kv)\<rparr>)"
    using assms by (simp add: ModalSolver_compute_def)
  show "length (map2 (np_div ar) mfv kv) = length kv"
    using assms by simp
next
  fix i assume i: "i < length kv"
  then show val: "map2 (np_div ar) mfv kv ! i = np_div ar (mfv ! i) (kv ! i)"
    using assms by simp
  {
    fix m \<kappa> assume fin: "mfv ! i = Fin m \<and> kv ! i = Fin \<kappa> \<and> m \<noteq> 0"
    with assms i have nz: "\<kappa> \<noteq> 0" by (auto simp: is_zero_def)
    with fin val show r: "map2 (np_div ar) mfv kv ! i = np_round ar (m / \<kappa>)"
      by (simp add: np_div_Fin)
    assume "ar_rnd ar \<bar>m / \<kappa>\<bar> = Some \<bar>m / \<kappa>\<bar>"
    with fin nz show "map2 (np_div ar) mfv kv ! i = Fin (m / \<kappa>)"
      unfolding r by (intro np_round_exact) simp_all
  }
  assume neg: "is_negative (kv ! i) \<and> is_finite (mfv ! i)"
  then show "map2 (np_div ar) mfv kv ! i \<noteq> NaN"
    unfolding val using np_div_negative [of "kv ! i" "mfv ! i" ar] by simp
  from neg show "signbit (map2 (np_div ar) mfv kv ! i) = (\<not> signbit (mfv ! i))"
    unfolding val using np_div_negative [of "kv ! i" "mfv ! i" ar] by simp
qed

theorem ModalSolver_compute_quotient_witness:
  "\<exists>zv. ModalSolver_compute exact_arith
       (no_vars\<lparr>v_k := Some [Fin 1, Fin (- 2)], v_mf := Some [Fin 3, Fin 4]\<rparr>)
       (no_vars\<lparr>v_z := Some [Fin 1, Fin 1]\<rparr>) =
         Inr (no_vars\<lparr>v_z := Some [Fin 1, Fin 1]\<rparr>\<lparr>v_z := Some zv\<rparr>) \<and>
     length zv = length [Fin 1, Fin (- 2)] \<and>
     (\<forall>i<length [Fin 1, Fin (- 2)].
        zv ! i = np_div exact_arith ([Fin 3, Fin 4] ! i) ([Fin 1, Fin (- 2)] ! i) \<and>
        (\<forall>m \<kappa>. [Fin 3, Fin 4] ! i = Fin m \<and> [Fin 1, Fin (- 2)] ! i = Fin \<kappa> \<and> m \<noteq> 0 \<longrightarrow>
           zv ! i = np_round exact_arith (m / \<kappa>) \<and>
           (ar_rnd exact_arith \<bar>m / \<kappa>\<bar> = Some \<bar>m / \<kappa>\<bar> \<longrightarrow> zv ! i = Fin (m / \<kappa>))) \<and>
        (is_negative ([Fin 1, Fin (- 2)] ! i) \<and> is_finite ([Fin 3, Fin 4] ! i) \<longrightarrow>
           zv ! i \<noteq> NaN \<and> signbit (zv ! i) = (\<not> signbit ([Fin 3, Fin 4] ! i))))"
  by (rule ModalSolver_compute_quotient [where zold = "[Fin 1, Fin 1]"])
    (simp_all add: less_Suc_eq is_zero_def)

text \<open>
  Claim C3, as the code has it.  \<^verbatim>\<open>ModalSolver.compute\<close> has no check of the stiffness
  and raises nothing: for arrays of the same length it always returns, and where
  \<open>k[i]\<close> is zero (of either sign) the entry \<open>z[i]\<close> is one of the values \<open>inf\<close>,
  \<open>-inf\<close> and \<open>nan\<close>.
\<close>

theorem ModalSolver_compute_total:
  assumes "v_k inputs = Some kv" and "v_mf inputs = Some mfv" and "v_z outputs = Some zold"
    and "length mfv = length kv" and "length zold = length kv"
  shows "\<exists>zv. ModalSolver_compute ar inputs outputs = Inr (outputs\<lparr>v_z := Some zv\<rparr>) \<and>
           length zv = length kv \<and>
           (\<forall>i<length kv. is_zero (kv ! i) \<longrightarrow> zv ! i \<in> {PInf, NInf, NaN})"
proof (intro exI conjI allI impI)
  show "ModalSolver_compute ar inputs outputs =
      Inr (outputs\<lparr>v_z := Some (map2 (np_div ar) mfv kv)\<rparr>)"
    using assms by (simp add: ModalSolver_compute_def)
  show "length (map2 (np_div ar) mfv kv) = length kv"
    using assms by simp
next
  fix i assume "i < length kv" "is_zero (kv ! i)"
  then show "map2 (np_div ar) mfv kv ! i \<in> {PInf, NInf, NaN}"
    using assms np_div_by_zero [of "kv ! i" ar "mfv ! i"] by simp
qed

theorem ModalSolver_compute_total_witness:
  "\<exists>zv. ModalSolver_compute exact_arith
       (no_vars\<lparr>v_k := Some [Fin 0, Fin 2], v_mf := Some [Fin 1, Fin 4]\<rparr>)
       (no_vars\<lparr>v_z := Some [Fin 1, Fin 1]\<rparr>) =
         Inr (no_vars\<lparr>v_z := Some [Fin 1, Fin 1]\<rparr>\<lparr>v_z := Some zv\<rparr>) \<and>
     length zv = length [Fin 0, Fin 2] \<and>
     (\<forall>i<length [Fin 0, Fin 2]. is_zero ([Fin 0, Fin 2] ! i) \<longrightarrow> zv ! i \<in> {PInf, NInf, NaN})"
  by (rule ModalSolver_compute_total [where zold = "[Fin 1, Fin 1]" and mfv = "[Fin 1, Fin 4]"])
    simp_all

text \<open>
  Claim C3, as the specification states it, fails at the specification's own scenario:
  with \<open>k = [0]\<close> and \<open>mf = [1]\<close> the solve returns \<open>z = [inf]\<close>.
\<close>

theorem ModalSolver_zero_stiffness_counterexample:
  "ModalSolver_compute exact_arith (no_vars\<lparr>v_k := Some [Fin 0], v_mf := Some [Fin 1]\<rparr>)
     (no_vars\<lparr>v_z := Some [Fin 1]\<rparr>) = Inr (no_vars\<lparr>v_z := Some [PInf]\<rparr>)"
  by (simp add: ModalSolver_compute_def no_vars_def np_div_def is_zero_def is_inf_def inf_of_def)

section \<open>The derivative rules of the modal equilibrium solve\<close>







section \<open>The force projection\<close>




section \<open>The displacement reconstruction\<close>

lemma ModalDisplacements_compute_loop_acc:
  assumes "v_mode_shape inputs = Some M" and "v_z inputs = Some z" and "v_u_s outputs = Some u"
    and "\<forall>i\<in>set imodes. i < length M \<and> i < length z \<and> length (M ! i) = length u"
  shows "ModalDisplacements_compute_loop ar inputs imodes outputs =
    Inr (outputs\<lparr>v_u_s := Some
      (map (\<lambda>j. foldl (np_add ar) (u ! j) (map (\<lambda>i. np_mul ar (M ! i ! j) (z ! i)) imodes))
         [0..<length u])\<rparr>)"
  using assms
proof (induction imodes arbitrary: outputs u)
  case Nil
  have "map (\<lambda>j. u ! j) [0..<length u] = u"
    by (rule map_nth)
  with Nil show ?case by simp
next
  case (Cons imode rest)
  define u' where "u' = map2 (np_add ar) u (np_scale ar (M ! imode) (z ! imode))"
  have len: "length u' = length u"
    using Cons.prems by (simp add: u'_def np_scale_def)
  have nth: "u' ! j = np_add ar (u ! j) (np_mul ar (M ! imode ! j) (z ! imode))"
    if "j < length u" for j
    using that Cons.prems by (simp add: u'_def np_scale_def)
  have "ModalDisplacements_compute_loop ar inputs rest (outputs\<lparr>v_u_s := Some u'\<rparr>) =
      Inr (outputs\<lparr>v_u_s := Some u'\<rparr>\<lparr>v_u_s := Some
        (map (\<lambda>j. foldl (np_add ar) (u' ! j) (map (\<lambda>i. np_mul ar (M ! i ! j) (z ! i)) rest))
           [0..<length u'])\<rparr>)"
    by (rule Cons.IH) (use Cons.prems len in simp_all)
  moreover have "map (\<lambda>j. foldl (np_add ar) (u' ! j) (map (\<lambda>i. np_mul ar (M ! i ! j) (z ! i)) rest))
           [0..<length u'] =
        map (\<lambda>j. foldl (np_add ar) (u ! j) (map (\<lambda>i. np_mul ar (M ! i ! j) (z ! i)) (imode # rest)))
           [0..<length u]"
    using len nth by simp
  ultimately show ?case
    using Cons.prems by (simp add: u'_def np_scale_def)
qed

text \<open>
  Where no product and no partial sum needs rounding, a sum accumulated from zero is the sum
  of the reals.
\<close>

lemma np_mul_exact:
  assumes "is_finite x" and "is_finite y"
    and "ar_rnd ar \<bar>the_real x * the_real y\<bar> = Some \<bar>the_real x * the_real y\<bar>"
  shows "is_finite (np_mul ar x y) \<and> the_real (np_mul ar x y) = the_real x * the_real y"
proof (cases "is_zero x \<or> is_zero y")
  case True
  then have "the_real x * the_real y = 0"
    by (auto simp: is_zero_def)
  moreover from True assms(1,2) have "np_mul ar x y = zero_of (signbit x \<noteq> signbit y)"
    by (auto simp: np_mul_def is_finite_def is_inf_def is_zero_def split: npfloat.splits)
  ultimately show ?thesis
    by (simp add: zero_of_def is_finite_def)
next
  case False
  with assms(1,2) obtain a b where ab: "x = Fin a" "y = Fin b" "a \<noteq> 0" "b \<noteq> 0"
    by (cases x; cases y) (auto simp: is_finite_def is_zero_def)
  then have "np_mul ar x y = np_round ar (a * b)"
    by (simp add: np_mul_def is_inf_def is_zero_def)
  also have "\<dots> = Fin (a * b)"
    using assms(3) ab by (intro np_round_exact) simp_all
  finally show ?thesis
    using ab by (simp add: is_finite_def)
qed

lemma np_add_exact:
  assumes "is_finite y" and "ar_rnd ar \<bar>a + the_real y\<bar> = Some \<bar>a + the_real y\<bar>"
  shows "np_add ar (Fin a) y = Fin (a + the_real y)"
proof (cases y)
  case (Fin b)
  show ?thesis
  proof (cases "a + b = 0 \<or> b = 0 \<or> a = 0")
    case True
    with Fin show ?thesis by auto
  next
    case False
    then have "np_add ar (Fin a) (Fin b) = np_round ar (a + b)"
      by simp
    also have "\<dots> = Fin (a + b)"
      using assms(2) Fin False by (intro np_round_exact) simp_all
    finally show ?thesis
      using Fin by simp
  qed
qed (use assms in \<open>simp_all add: is_finite_def\<close>)

lemma foldl_np_add_exact:
  assumes "\<forall>i<n. is_finite (g i) \<and> the_real (g i) = p i"
    and "\<forall>m\<le>n. ar_rnd ar \<bar>\<Sum>i<m. p i\<bar> = Some \<bar>\<Sum>i<m. p i\<bar>"
  shows "foldl (np_add ar) 0 (map g [0..<n]) = Fin (\<Sum>i<n. p i)"
  using assms
proof (induction n)
  case 0
  show ?case by (simp add: zero_npfloat_def)
next
  case (Suc n)
  have "foldl (np_add ar) 0 (map g [0..<n]) = Fin (\<Sum>i<n. p i)"
    by (rule Suc.IH) (use Suc.prems in simp_all)
  moreover have "np_add ar (Fin (\<Sum>i<n. p i)) (g n) = Fin ((\<Sum>i<n. p i) + the_real (g n))"
  proof (rule np_add_exact)
    show "is_finite (g n)"
      using Suc.prems(1) by simp
    have "ar_rnd ar \<bar>\<Sum>i<Suc n. p i\<bar> = Some \<bar>\<Sum>i<Suc n. p i\<bar>"
      using Suc.prems(2) by blast
    moreover have "the_real (g n) = p n"
      using Suc.prems(1) by simp
    ultimately show "ar_rnd ar \<bar>(\<Sum>i<n. p i) + the_real (g n)\<bar> =
        Some \<bar>(\<Sum>i<n. p i) + the_real (g n)\<bar>"
      by simp
  qed
  moreover have "the_real (g n) = p n"
    using Suc.prems(1) by simp
  ultimately show ?case
    by simp
qed

text \<open>
  Claim C7.  For a mode shape matrix of \<open>nmodes\<close> rows, each as long as the output array,
  and modal displacements of length \<open>nmodes\<close>, \<^verbatim>\<open>ModalDisplacements.compute\<close> returns
  and stores in \<^verbatim>\<open>u_s\<close> an array of the same length whose entry \<open>j\<close> is the sum over
  \<open>i\<close> of \<open>mode_shape[i,j] \<cdot> z[i]\<close>, whatever the output array held before: the matrix
  that \<^verbatim>\<open>ModalForces.compute\<close> applies to \<open>f_s\<close>, summed over its other index.  The
  products are those of the array elements, added to zero one mode after the other, each
  product and each partial sum rounded; where none of them needs rounding, the entry is the
  sum of the reals.
\<close>

theorem ModalDisplacements_compute_reconstruction:
  assumes "v_mode_shape inputs = Some M" and "v_z inputs = Some z" and "v_u_s outputs = Some old"
    and "length M = self_nmodes self" and "length z = self_nmodes self"
    and "\<forall>i<self_nmodes self. length (M ! i) = length old"
  shows "\<exists>u. ModalDisplacements_compute ar self inputs outputs = Inr (outputs\<lparr>v_u_s := Some u\<rparr>) \<and>
           length u = length old \<and>
           (\<forall>j<length old.
              u ! j = foldl (np_add ar) 0
                (map (\<lambda>i. np_mul ar (M ! i ! j) (z ! i)) [0..<self_nmodes self]) \<and>
              ((\<forall>i<self_nmodes self. is_finite (M ! i ! j) \<and> is_finite (z ! i) \<and>
                  ar_rnd ar \<bar>the_real (M ! i ! j) * the_real (z ! i)\<bar> =
                    Some \<bar>the_real (M ! i ! j) * the_real (z ! i)\<bar>) \<and>
               (\<forall>m\<le>self_nmodes self.
                  ar_rnd ar \<bar>\<Sum>i<m. the_real (M ! i ! j) * the_real (z ! i)\<bar> =
                    Some \<bar>\<Sum>i<m. the_real (M ! i ! j) * the_real (z ! i)\<bar>) \<longrightarrow>
               u ! j = Fin (\<Sum>i<self_nmodes self. the_real (M ! i ! j) * the_real (z ! i))))"
proof -
  define n where "n = self_nmodes self"
  define u0 :: "npfloat list" where "u0 = replicate (length old) 0"
  define u where
    "u = map (\<lambda>j. foldl (np_add ar) (u0 ! j) (map (\<lambda>i. np_mul ar (M ! i ! j) (z ! i)) [0..<n]))
           [0..<length u0]"
  have "ModalDisplacements_compute_loop ar inputs [0..<n] (outputs\<lparr>v_u_s := Some u0\<rparr>) =
      Inr (outputs\<lparr>v_u_s := Some u0\<rparr>\<lparr>v_u_s := Some u\<rparr>)"
    unfolding u_def
    by (rule ModalDisplacements_compute_loop_acc)
      (use assms in \<open>simp_all add: n_def u0_def\<close>)
  then have run: "ModalDisplacements_compute ar self inputs outputs = Inr (outputs\<lparr>v_u_s := Some u\<rparr>)"
    using assms by (simp add: ModalDisplacements_compute_def n_def u0_def)
  have len: "length u = length old"
    by (simp add: u_def u0_def)
  have val: "u ! j = foldl (np_add ar) 0 (map (\<lambda>i. np_mul ar (M ! i ! j) (z ! i)) [0..<n])"
    if "j < length old" for j
    using that by (simp add: u_def u0_def)
  have exact: "u ! j = Fin (\<Sum>i<n. the_real (M ! i ! j) * the_real (z ! i))"
    if j: "j < length old"
      and fin: "\<forall>i<n. is_finite (M ! i ! j) \<and> is_finite (z ! i) \<and>
                  ar_rnd ar \<bar>the_real (M ! i ! j) * the_real (z ! i)\<bar> =
                    Some \<bar>the_real (M ! i ! j) * the_real (z ! i)\<bar>"
      and sums: "\<forall>m\<le>n. ar_rnd ar \<bar>\<Sum>i<m. the_real (M ! i ! j) * the_real (z ! i)\<bar> =
                    Some \<bar>\<Sum>i<m. the_real (M ! i ! j) * the_real (z ! i)\<bar>"
    for j
  proof -
    have "foldl (np_add ar) 0 (map (\<lambda>i. np_mul ar (M ! i ! j) (z ! i)) [0..<n]) =
        Fin (\<Sum>i<n. the_real (M ! i ! j) * the_real (z ! i))"
    proof (rule foldl_np_add_exact)
      show "\<forall>i<n. is_finite (np_mul ar (M ! i ! j) (z ! i)) \<and>
          the_real (np_mul ar (M ! i ! j) (z ! i)) = the_real (M ! i ! j) * the_real (z ! i)"
        using fin np_mul_exact by blast
      show "\<forall>m\<le>n. ar_rnd ar \<bar>\<Sum>i<m. the_real (M ! i ! j) * the_real (z ! i)\<bar> =
                    Some \<bar>\<Sum>i<m. the_real (M ! i ! j) * the_real (z ! i)\<bar>"
        by (fact sums)
    qed
    with val [OF j] show ?thesis by simp
  qed
  show ?thesis
  proof (intro exI conjI allI impI)
    show "ModalDisplacements_compute ar self inputs outputs = Inr (outputs\<lparr>v_u_s := Some u\<rparr>)"
      by (fact run)
    show "length u = length old"
      by (fact len)
  next
    fix j assume j: "j < length old"
    then show "u ! j = foldl (np_add ar) 0
        (map (\<lambda>i. np_mul ar (M ! i ! j) (z ! i)) [0..<self_nmodes self])"
      using val by (simp add: n_def)
    assume "(\<forall>i<self_nmodes self. is_finite (M ! i ! j) \<and> is_finite (z ! i) \<and>
                  ar_rnd ar \<bar>the_real (M ! i ! j) * the_real (z ! i)\<bar> =
                    Some \<bar>the_real (M ! i ! j) * the_real (z ! i)\<bar>) \<and>
               (\<forall>m\<le>self_nmodes self.
                  ar_rnd ar \<bar>\<Sum>i<m. the_real (M ! i ! j) * the_real (z ! i)\<bar> =
                    Some \<bar>\<Sum>i<m. the_real (M ! i ! j) * the_real (z ! i)\<bar>)"
    then show "u ! j = Fin (\<Sum>i<self_nmodes self. the_real (M ! i ! j) * the_real (z ! i))"
      using exact [OF j] unfolding n_def by blast
  qed
qed

theorem ModalDisplacements_compute_reconstruction_witness:
  "ModalDisplacements_compute exact_arith
       \<lparr>self_options = Map.empty, self_nmodes = 2, self_node_size = 3\<rparr>
       (no_vars\<lparr>v_mode_shape := Some [[Fin 1, Fin 2, Fin 3], [Fin 4, Fin 5, Fin 6]],
          v_z := Some [Fin 1, Fin (- 1)]\<rparr>)
       (no_vars\<lparr>v_u_s := Some [Fin 7, Fin 8, Fin 9]\<rparr>) =
     Inr (no_vars\<lparr>v_u_s := Some [Fin (- 3), Fin (- 3), Fin (- 3)]\<rparr>)"
proof -
  let ?self = "\<lparr>self_options = Map.empty, self_nmodes = 2, self_node_size = 3\<rparr>"
  let ?M = "[[Fin 1, Fin 2, Fin 3], [Fin 4, Fin 5, Fin 6]]"
  let ?z = "[Fin 1, Fin (- 1)]"
  let ?old = "[Fin 7, Fin 8, Fin 9]"
  let ?inputs = "no_vars\<lparr>v_mode_shape := Some ?M, v_z := Some ?z\<rparr>"
  let ?outputs = "no_vars\<lparr>v_u_s := Some ?old\<rparr>"
  have "\<exists>u. ModalDisplacements_compute exact_arith ?self ?inputs ?outputs =
           Inr (?outputs\<lparr>v_u_s := Some u\<rparr>) \<and>
           length u = length ?old \<and>
           (\<forall>j<length ?old.
              u ! j = foldl (np_add exact_arith) 0
                (map (\<lambda>i. np_mul exact_arith (?M ! i ! j) (?z ! i)) [0..<self_nmodes ?self]) \<and>
              ((\<forall>i<self_nmodes ?self. is_finite (?M ! i ! j) \<and> is_finite (?z ! i) \<and>
                  ar_rnd exact_arith \<bar>the_real (?M ! i ! j) * the_real (?z ! i)\<bar> =
                    Some \<bar>the_real (?M ! i ! j) * the_real (?z ! i)\<bar>) \<and>
               (\<forall>m\<le>self_nmodes ?self.
                  ar_rnd exact_arith \<bar>\<Sum>i<m. the_real (?M ! i ! j) * the_real (?z ! i)\<bar> =
                    Some \<bar>\<Sum>i<m. the_real (?M ! i ! j) * the_real (?z ! i)\<bar>) \<longrightarrow>
               u ! j = Fin (\<Sum>i<self_nmodes ?self. the_real (?M ! i ! j) * the_real (?z ! i))))"
    by (rule ModalDisplacements_compute_reconstruction) (simp_all add: less_2_cases_iff)
  then obtain u where run: "ModalDisplacements_compute exact_arith ?self ?inputs ?outputs =
           Inr (?outputs\<lparr>v_u_s := Some u\<rparr>)"
    and len: "length u = 3"
    and val: "\<forall>j<3. u ! j = foldl (np_add exact_arith) 0
                (map (\<lambda>i. np_mul exact_arith (?M ! i ! j) (?z ! i)) [0..<2])"
    by auto
  from val have "u ! 0 = Fin (- 3)" and "u ! 1 = Fin (- 3)" and "u ! 2 = Fin (- 3)"
    by (simp_all add: upt_rec zero_npfloat_def np_mul_def np_round_def exact_arith_def
        is_zero_def is_inf_def)
  with len have "u = [Fin (- 3), Fin (- 3), Fin (- 3)]"
    by (intro nth_equalityI) (auto simp: less_Suc_eq numeral_3_eq_3 numeral_2_eq_2)
  with run show ?thesis
    by simp
qed

section \<open>The undeclared option of the derivative products\<close>

lemma ModalForces_new_options:
  "ebind (ModalForces_init base a) ModalForces_setup =
     Inr \<lparr>self_options = base(''get_modal_sizes'' \<mapsto> SizesFn (asm_nmodes a) (asm_nnodes a * 3)),
          self_nmodes = asm_nmodes a, self_node_size = asm_nnodes a * 3\<rparr>"
  by (simp add: ModalForces_init_def ModalForces_initialize_def ModalForces_setup_def
      options_setitem_def options_getitem_def call_sizes_def get_modal_sizes_def)

lemma ModalDisplacements_new_options:
  "ebind (ModalDisplacements_init base a) ModalDisplacements_setup =
     Inr \<lparr>self_options = base(''get_modal_sizes'' \<mapsto> SizesFn (asm_nmodes a) (asm_nnodes a * 3)),
          self_nmodes = asm_nmodes a, self_node_size = asm_nnodes a * 3\<rparr>"
  by (simp add: ModalDisplacements_init_def ModalDisplacements_initialize_def
      ModalDisplacements_setup_def options_setitem_def options_getitem_def call_sizes_def
      get_modal_sizes_def)

lemma ModalSolver_new_options:
  "ModalSolver_init base a = Inr (base(''nmodes'' \<mapsto> IntVal (int (asm_nmodes a))))"
  by (simp add: ModalSolver_init_def ModalSolver_initialize_def options_setitem_def)

lemma ModalForces_jacvec_KeyError:
  assumes "self_options self ''nmodes'' = None" and "mode = ''fwd'' \<or> mode = ''rev''"
    and "v_mf d_outputs \<noteq> None" and "v_f_s d_inputs \<noteq> None"
  shows "ModalForces_compute_jacvec_product ar self inputs d_inputs d_outputs mode = Inl KeyError"
  using assms by (auto simp: ModalForces_compute_jacvec_product_def options_getitem_def)

lemma ModalDisplacements_jacvec_KeyError:
  assumes "self_options self ''nmodes'' = None" and "mode = ''fwd'' \<or> mode = ''rev''"
    and "v_u_s d_outputs \<noteq> None" and "v_z d_inputs \<noteq> None"
  shows "ModalDisplacements_compute_jacvec_product ar self inputs d_inputs d_outputs mode = Inl KeyError"
  using assms by (auto simp: ModalDisplacements_compute_jacvec_product_def options_getitem_def)

lemma ModalSolver_jacvec_returns:
  assumes "v_k inputs = Some kv" and "v_mf inputs = Some mfv"
    and "v_k d_inputs = Some dk" and "v_mf d_inputs = Some dmf" and "v_z d_outputs = Some dz"
    and "length mfv = length kv" and "length dk = length kv" and "length dmf = length kv"
    and "length dz = length kv"
  shows "\<exists>r. ModalSolver_compute_jacvec_product ar inputs d_inputs d_outputs mode = Inr r"
  using assms
  by (simp add: ModalSolver_compute_jacvec_product_def ModalSolver_fwd_mf_def
      ModalSolver_fwd_k_def ModalSolver_rev_mf_def ModalSolver_rev_k_def dz_dk_def)

text \<open>
  Claim C2.  \<^verbatim>\<open>ModalForces\<close> and \<^verbatim>\<open>ModalDisplacements\<close> declare only
  \<^verbatim>\<open>get_modal_sizes\<close>.  When the base class declares no option \<^verbatim>\<open>nmodes\<close>, a
  component built as \<^verbatim>\<open>add_fsi_components\<close> builds it is set up without error, and
  every call of its \<^verbatim>\<open>compute_jacvec_product\<close> in mode \<^verbatim>\<open>'fwd'\<close> or
  \<^verbatim>\<open>'rev'\<close> with the output seed and the input seed both present raises
  \<open>KeyError\<close>, whatever the arrays are.  \<^verbatim>\<open>ModalSolver\<close> declares \<^verbatim>\<open>nmodes\<close>,
  reads it back without error, and its \<^verbatim>\<open>compute_jacvec_product\<close> returns on arrays of
  one length.
\<close>

theorem jacvec_nmodes_option_KeyError:
  assumes "base ''nmodes'' = None" and "mode = ''fwd'' \<or> mode = ''rev''"
  shows "(\<exists>self. ebind (ModalForces_init base a) ModalForces_setup = Inr self \<and>
            (\<forall>inputs d_inputs d_outputs. v_mf d_outputs \<noteq> None \<and> v_f_s d_inputs \<noteq> None \<longrightarrow>
               ModalForces_compute_jacvec_product ar self inputs d_inputs d_outputs mode =
                 Inl KeyError)) \<and>
         (\<exists>self. ebind (ModalDisplacements_init base a) ModalDisplacements_setup = Inr self \<and>
            (\<forall>inputs d_inputs d_outputs. v_u_s d_outputs \<noteq> None \<and> v_z d_inputs \<noteq> None \<longrightarrow>
               ModalDisplacements_compute_jacvec_product ar self inputs d_inputs d_outputs mode =
                 Inl KeyError)) \<and>
         (\<exists>opts. ModalSolver_init base a = Inr opts \<and>
            options_getitem opts ''nmodes'' = Inr (IntVal (int (asm_nmodes a))) \<and>
            (\<forall>inputs d_inputs d_outputs kv mfv dk dmf dz.
               v_k inputs = Some kv \<and> v_mf inputs = Some mfv \<and> v_k d_inputs = Some dk \<and>
               v_mf d_inputs = Some dmf \<and> v_z d_outputs = Some dz \<and> length mfv = length kv \<and>
               length dk = length kv \<and> length dmf = length kv \<and> length dz = length kv \<longrightarrow>
               (\<exists>r. ModalSolver_compute_jacvec_product ar inputs d_inputs d_outputs mode = Inr r)))"
proof (intro conjI)
  show "\<exists>self. ebind (ModalForces_init base a) ModalForces_setup = Inr self \<and>
            (\<forall>inputs d_inputs d_outputs. v_mf d_outputs \<noteq> None \<and> v_f_s d_inputs \<noteq> None \<longrightarrow>
               ModalForces_compute_jacvec_product ar self inputs d_inputs d_outputs mode =
                 Inl KeyError)"
    unfolding ModalForces_new_options
    using assms by (auto intro!: ModalForces_jacvec_KeyError)
  show "\<exists>self. ebind (ModalDisplacements_init base a) ModalDisplacements_setup = Inr self \<and>
            (\<forall>inputs d_inputs d_outputs. v_u_s d_outputs \<noteq> None \<and> v_z d_inputs \<noteq> None \<longrightarrow>
               ModalDisplacements_compute_jacvec_product ar self inputs d_inputs d_outputs mode =
                 Inl KeyError)"
    unfolding ModalDisplacements_new_options
    using assms by (auto intro!: ModalDisplacements_jacvec_KeyError)
  show "\<exists>opts. ModalSolver_init base a = Inr opts \<and>
            options_getitem opts ''nmodes'' = Inr (IntVal (int (asm_nmodes a))) \<and>
            (\<forall>inputs d_inputs d_outputs kv mfv dk dmf dz.
               v_k inputs = Some kv \<and> v_mf inputs = Some mfv \<and> v_k d_inputs = Some dk \<and>
               v_mf d_inputs = Some dmf \<and> v_z d_outputs = Some dz \<and> length mfv = length kv \<and>
               length dk = length kv \<and> length dmf = length kv \<and> length dz = length kv \<longrightarrow>
               (\<exists>r. ModalSolver_compute_jacvec_product ar inputs d_inputs d_outputs mode = Inr r))"
  proof -
    have "\<exists>r. ModalSolver_compute_jacvec_product ar inputs d_inputs d_outputs mode = Inr r"
      if "v_k inputs = Some kv \<and> v_mf inputs = Some mfv \<and> v_k d_inputs = Some dk \<and>
          v_mf d_inputs = Some dmf \<and> v_z d_outputs = Some dz \<and> length mfv = length kv \<and>
          length dk = length kv \<and> length dmf = length kv \<and> length dz = length kv"
      for inputs d_inputs d_outputs kv mfv dk dmf dz
      using that by (elim conjE) (rule ModalSolver_jacvec_returns)
    moreover have "options_getitem (base(''nmodes'' \<mapsto> IntVal (int (asm_nmodes a)))) ''nmodes'' =
        Inr (IntVal (int (asm_nmodes a)))"
      by (simp add: options_getitem_def)
    ultimately show ?thesis
      unfolding ModalSolver_new_options by blast
  qed
qed

theorem jacvec_nmodes_option_KeyError_witness:
  "(\<exists>self. ebind (ModalForces_init Map.empty \<lparr>asm_nmodes = 2, asm_nnodes = 1\<rparr>) ModalForces_setup
              = Inr self \<and>
            (\<forall>inputs d_inputs d_outputs. v_mf d_outputs \<noteq> None \<and> v_f_s d_inputs \<noteq> None \<longrightarrow>
               ModalForces_compute_jacvec_product exact_arith self inputs d_inputs d_outputs ''fwd'' =
                 Inl KeyError)) \<and>
         (\<exists>self. ebind (ModalDisplacements_init Map.empty \<lparr>asm_nmodes = 2, asm_nnodes = 1\<rparr>)
              ModalDisplacements_setup = Inr self \<and>
            (\<forall>inputs d_inputs d_outputs. v_u_s d_outputs \<noteq> None \<and> v_z d_inputs \<noteq> None \<longrightarrow>
               ModalDisplacements_compute_jacvec_product exact_arith self inputs d_inputs d_outputs ''fwd'' =
                 Inl KeyError)) \<and>
         (\<exists>opts. ModalSolver_init Map.empty \<lparr>asm_nmodes = 2, asm_nnodes = 1\<rparr> = Inr opts \<and>
            options_getitem opts ''nmodes'' =
              Inr (IntVal (int (asm_nmodes \<lparr>asm_nmodes = 2, asm_nnodes = 1\<rparr>))) \<and>
            (\<forall>inputs d_inputs d_outputs kv mfv dk dmf dz.
               v_k inputs = Some kv \<and> v_mf inputs = Some mfv \<and> v_k d_inputs = Some dk \<and>
               v_mf d_inputs = Some dmf \<and> v_z d_outputs = Some dz \<and> length mfv = length kv \<and>
               length dk = length kv \<and> length dmf = length kv \<and> length dz = length kv \<longrightarrow>
               (\<exists>r. ModalSolver_compute_jacvec_product exact_arith inputs d_inputs d_outputs ''fwd'' = Inr r)))"
  by (rule jacvec_nmodes_option_KeyError) simp_all

text \<open>
  Claim C1 at a failing input.  For one mode and one node, the components built and set up
  as \<^verbatim>\<open>add_fsi_components\<close> builds them raise \<open>KeyError\<close> in both modes of
  \<^verbatim>\<open>compute_jacvec_product\<close>, so neither side of the dot-product identity exists for the
  force projection and the displacement reconstruction.
\<close>

theorem jacvec_fails_on_declared_sizes:
  "ebind (ModalForces_init Map.empty \<lparr>asm_nmodes = 1, asm_nnodes = 1\<rparr>) ModalForces_setup =
     Inr \<lparr>self_options = [''get_modal_sizes'' \<mapsto> SizesFn 1 3], self_nmodes = 1, self_node_size = 3\<rparr> \<and>
   ModalForces_compute_jacvec_product exact_arith
     \<lparr>self_options = [''get_modal_sizes'' \<mapsto> SizesFn 1 3], self_nmodes = 1, self_node_size = 3\<rparr>
     (no_vars\<lparr>v_mode_shape := Some [[Fin 1, Fin 0, Fin 0]], v_f_s := Some [Fin 1, Fin 1, Fin 1]\<rparr>)
     (no_vars\<lparr>v_f_s := Some [Fin 1, Fin 0, Fin 0]\<rparr>) (no_vars\<lparr>v_mf := Some [Fin 0]\<rparr>) ''fwd'' =
     Inl KeyError \<and>
   ModalForces_compute_jacvec_product exact_arith
     \<lparr>self_options = [''get_modal_sizes'' \<mapsto> SizesFn 1 3], self_nmodes = 1, self_node_size = 3\<rparr>
     (no_vars\<lparr>v_mode_shape := Some [[Fin 1, Fin 0, Fin 0]], v_f_s := Some [Fin 1, Fin 1, Fin 1]\<rparr>)
     (no_vars\<lparr>v_f_s := Some [Fin 0, Fin 0, Fin 0]\<rparr>) (no_vars\<lparr>v_mf := Some [Fin 1]\<rparr>) ''rev'' =
     Inl KeyError \<and>
   ebind (ModalDisplacements_init Map.empty \<lparr>asm_nmodes = 1, asm_nnodes = 1\<rparr>)
     ModalDisplacements_setup =
     Inr \<lparr>self_options = [''get_modal_sizes'' \<mapsto> SizesFn 1 3], self_nmodes = 1, self_node_size = 3\<rparr> \<and>
   ModalDisplacements_compute_jacvec_product exact_arith
     \<lparr>self_options = [''get_modal_sizes'' \<mapsto> SizesFn 1 3], self_nmodes = 1, self_node_size = 3\<rparr>
     (no_vars\<lparr>v_mode_shape := Some [[Fin 1, Fin 0, Fin 0]], v_z := Some [Fin 1]\<rparr>)
     (no_vars\<lparr>v_z := Some [Fin 1]\<rparr>) (no_vars\<lparr>v_u_s := Some [Fin 0, Fin 0, Fin 0]\<rparr>) ''fwd'' =
     Inl KeyError \<and>
   ModalDisplacements_compute_jacvec_product exact_arith
     \<lparr>self_options = [''get_modal_sizes'' \<mapsto> SizesFn 1 3], self_nmodes = 1, self_node_size = 3\<rparr>
     (no_vars\<lparr>v_mode_shape := Some [[Fin 1, Fin 0, Fin 0]], v_z := Some [Fin 1]\<rparr>)
     (no_vars\<lparr>v_z := Some [Fin 0]\<rparr>) (no_vars\<lparr>v_u_s := Some [Fin 1, Fin 0, Fin 0]\<rparr>) ''rev'' =
     Inl KeyError"
  by (simp add: ModalForces_new_options ModalDisplacements_new_options
      ModalForces_compute_jacvec_product_def ModalDisplacements_compute_jacvec_product_def
      options_getitem_def no_vars_def)

section \<open>The modal decomposition\<close>

lemma ebind_eq_Inr: "ebind m f = Inr y \<longleftrightarrow> (\<exists>x. m = Inr x \<and> f x = Inr y)"
  by (cases m) simp_all

lemma getitem_eq_Inr: "getitem v = Inr a \<longleftrightarrow> v = Some a"
  by (cases v) simp_all

lemma setindex_eq_Inr: "setindex xs i v = Inr ys \<longleftrightarrow> i < length xs \<and> ys = xs[i := v]"
  by (auto simp: setindex_def)

lemma ModalDecomp_scatter_frame:
  "ModalDecomp_scatter vec ndof imode idofs outputs = Inr out \<Longrightarrow>
     v_modal_mass out = v_modal_mass outputs"
proof (induction idofs arbitrary: outputs)
  case Nil
  then show ?case by simp
next
  case (Cons idof rest)
  from Cons.prems obtain M row' where
    "ModalDecomp_scatter vec ndof imode rest (outputs\<lparr>v_mode_shape := Some (M[imode := row'])\<rparr>) = Inr out"
    by (auto simp: ebind_eq_Inr)
  from Cons.IH [OF this] show ?case by simp
qed

lemma ModalDecomp_compute_loop_modal_mass:
  assumes "ModalDecomp_compute_loop self ex imodes outputs = Inr out"
  shows "(\<forall>i\<in>set imodes. \<exists>mm. v_modal_mass out = Some mm \<and> i < length mm \<and> mm ! i = 1) \<and>
         (\<forall>mm0. v_modal_mass outputs = Some mm0 \<longrightarrow>
            (\<exists>mm. v_modal_mass out = Some mm \<and> length mm = length mm0 \<and>
               (\<forall>i<length mm0. mm0 ! i = 1 \<longrightarrow> mm ! i = 1)))"
  using assms
proof (induction imodes arbitrary: outputs)
  case Nil
  then show ?case by simp
next
  case (Cons imode rest)
  obtain eig err vec where ex: "ex imode = (eig, err, vec)"
    by (cases "ex imode") auto
  from Cons.prems ex obtain mm0 ms ms' outputs' where
    mm0: "v_modal_mass outputs = Some mm0" and imode: "imode < length mm0"
    and scatter: "ModalDecomp_scatter vec (dec_ndof self) imode [0..<3]
       (outputs\<lparr>v_modal_mass := Some (mm0[imode := 1]), v_modal_stiffness := Some ms'\<rparr>) = Inr outputs'"
    and rest: "ModalDecomp_compute_loop self ex rest outputs' = Inr out"
    by (auto simp: ebind_eq_Inr getitem_eq_Inr setindex_eq_Inr)
  from ModalDecomp_scatter_frame [OF scatter]
  have mm1: "v_modal_mass outputs' = Some (mm0[imode := 1])" by simp
  from Cons.IH [OF rest]
  have tail: "\<forall>i\<in>set rest. \<exists>mm. v_modal_mass out = Some mm \<and> i < length mm \<and> mm ! i = 1"
    and pres: "\<forall>mm0. v_modal_mass outputs' = Some mm0 \<longrightarrow>
            (\<exists>mm. v_modal_mass out = Some mm \<and> length mm = length mm0 \<and>
               (\<forall>i<length mm0. mm0 ! i = 1 \<longrightarrow> mm ! i = 1))"
    by blast+
  from pres mm1 obtain mm where
    mm: "v_modal_mass out = Some mm" "length mm = length mm0"
      "\<forall>i<length mm0. mm0[imode := 1] ! i = 1 \<longrightarrow> mm ! i = 1"
    by fastforce
  from mm imode have "mm ! imode = 1" by simp
  moreover have "\<forall>i<length mm0. mm0 ! i = 1 \<longrightarrow> mm ! i = 1"
  proof (intro allI impI)
    fix i assume "i < length mm0" "mm0 ! i = 1"
    then have "mm0[imode := 1] ! i = 1"
      by (cases "i = imode") simp_all
    with mm(3) \<open>i < length mm0\<close> show "mm ! i = 1" by blast
  qed
  ultimately show ?case
    using tail mm mm0 imode by auto
qed

text \<open>
  Claim C9.  Whenever \<^verbatim>\<open>ModalDecomp.compute\<close> returns, for every design-variable
  input, every result of the eigensolver and whatever the output arrays held before, the
  \<^verbatim>\<open>modal_mass\<close> it returns holds \<open>1.0\<close> at every mode index below \<open>nmodes\<close>.
\<close>

theorem ModalDecomp_modal_mass_unit:
  assumes "ModalDecomp_compute self tacs inputs outputs = Inr basis"
  shows "\<forall>i<dec_nmodes self. \<exists>mm. v_modal_mass basis = Some mm \<and> i < length mm \<and> mm ! i = 1"
proof -
  from assms obtain dv x0' where
    "ModalDecomp_compute_loop self (tacs dv) [0..<dec_nmodes self] (outputs\<lparr>v_x_s0 := Some x0'\<rparr>) = Inr basis"
    by (auto simp: ModalDecomp_compute_def ebind_eq_Inr)
  from ModalDecomp_compute_loop_modal_mass [OF this] show ?thesis by simp
qed

theorem ModalDecomp_modal_mass_unit_witness:
  "ModalDecomp_compute \<lparr>dec_nmodes = 1, dec_ndof = 6, dec_xpts = [Fin 0, Fin 0, Fin 0]\<rparr>
     (\<lambda>dv imode. (Fin 9, Fin 0, [Fin 1, Fin 2, Fin 3, Fin 4, Fin 5, Fin 6]))
     (no_vars\<lparr>v_dv_struct := Some [Fin 2]\<rparr>)
     (no_vars\<lparr>v_mode_shape := Some [[Fin 0, Fin 0, Fin 0]], v_modal_mass := Some [Fin 0],
        v_modal_stiffness := Some [Fin 0], v_x_s0 := Some [Fin 0, Fin 0, Fin 0]\<rparr>) =
   Inr (no_vars\<lparr>v_mode_shape := Some [[Fin 1, Fin 2, Fin 3]], v_modal_mass := Some [Fin 1],
        v_modal_stiffness := Some [Fin 9], v_x_s0 := Some [Fin 0, Fin 0, Fin 0]\<rparr>) \<and>
   (\<exists>mm. v_modal_mass (no_vars\<lparr>v_mode_shape := Some [[Fin 1, Fin 2, Fin 3]],
        v_modal_mass := Some [Fin 1], v_modal_stiffness := Some [Fin 9],
        v_x_s0 := Some [Fin 0, Fin 0, Fin 0]\<rparr>) = Some mm \<and> 0 < length mm \<and> mm ! 0 = 1)"
proof -
  have run: "ModalDecomp_compute \<lparr>dec_nmodes = 1, dec_ndof = 6, dec_xpts = [Fin 0, Fin 0, Fin 0]\<rparr>
     (\<lambda>dv imode. (Fin 9, Fin 0, [Fin 1, Fin 2, Fin 3, Fin 4, Fin 5, Fin 6]))
     (no_vars\<lparr>v_dv_struct := Some [Fin 2]\<rparr>)
     (no_vars\<lparr>v_mode_shape := Some [[Fin 0, Fin 0, Fin 0]], v_modal_mass := Some [Fin 0],
        v_modal_stiffness := Some [Fin 0], v_x_s0 := Some [Fin 0, Fin 0, Fin 0]\<rparr>) =
   Inr (no_vars\<lparr>v_mode_shape := Some [[Fin 1, Fin 2, Fin 3]], v_modal_mass := Some [Fin 1],
        v_modal_stiffness := Some [Fin 9], v_x_s0 := Some [Fin 0, Fin 0, Fin 0]\<rparr>)"
    by code_simp
  from ModalDecomp_modal_mass_unit [OF run]
  have "\<exists>mm. v_modal_mass (no_vars\<lparr>v_mode_shape := Some [[Fin 1, Fin 2, Fin 3]],
        v_modal_mass := Some [Fin 1], v_modal_stiffness := Some [Fin 9],
        v_x_s0 := Some [Fin 0, Fin 0, Fin 0]\<rparr>) = Some mm \<and> 0 < length mm \<and> mm ! 0 = 1"
    by simp
  with run show ?thesis by (rule conjI)
qed

text \<open>
  The slices \<^verbatim>\<open>a[start::step]\<close>: reading one gives every \<open>step\<close>-th element from
  \<open>start\<close> on, and assigning to one changes those elements and no other.
\<close>

lemma slice_indices_eq:
  assumes "start < step"
  shows "slice_indices (step * nn) start step = map (\<lambda>j. start + j * step) [0..<nn]"
proof (cases nn)
  case 0
  with assms show ?thesis by (simp add: slice_indices_def)
next
  case (Suc m)
  define r where "r = step - Suc start"
  have r: "r < step"
    using assms by (simp add: r_def)
  have "step * nn - start + step - 1 = nn * step + r"
    using assms Suc by (simp add: r_def algebra_simps)
  moreover have "(nn * step + r) div step = nn"
    using r by simp
  ultimately have "(step * nn - start + step - 1) div step = nn"
    by simp
  then show ?thesis by (simp add: slice_indices_def)
qed

lemma length_fold_pairs [simp]:
  "length (fold (\<lambda>(i, v) ys. ys[i := v]) ps xs) = length xs"
  by (induction ps arbitrary: xs) (simp_all add: split_def)

lemma fold_zip_update_other:
  "k \<notin> set is \<Longrightarrow> fold (\<lambda>(i, v) ys. ys[i := v]) (zip is vs) xs ! k = xs ! k"
proof (induction "is" arbitrary: vs xs)
  case Nil
  then show ?case by simp
next
  case (Cons i "is")
  then show ?case by (cases vs) simp_all
qed

lemma fold_zip_update_nth:
  "distinct is \<Longrightarrow> length vs = length is \<Longrightarrow> j < length is \<Longrightarrow> \<forall>i\<in>set is. i < length xs \<Longrightarrow>
     fold (\<lambda>(i, v) ys. ys[i := v]) (zip is vs) xs ! (is ! j) = vs ! j"
proof (induction "is" arbitrary: vs xs j)
  case Nil
  then show ?case by simp
next
  case (Cons i "is")
  then obtain v vs' where vs: "vs = v # vs'" by (cases vs) auto
  show ?case
  proof (cases j)
    case 0
    with Cons.prems vs show ?thesis by (simp add: fold_zip_update_other)
  next
    case (Suc j')
    with Cons.prems vs show ?thesis by (simp add: Cons.IH)
  qed
qed

lemma getslice_eval:
  assumes "start < step" and "length xs = step * nn"
  shows "getslice xs start step = Inr (map (\<lambda>n. xs ! (start + n * step)) [0..<nn])"
  using assms by (simp add: getslice_def slice_indices_eq)

lemma setslice_eval:
  assumes "start < step" and "length xs = step * nn" and "length vs = nn"
  shows "\<exists>ys. setslice xs start step vs = Inr ys \<and> length ys = length xs \<and>
           (\<forall>k<length xs. ys ! k = (if k mod step = start then vs ! (k div step) else xs ! k))"
proof -
  define idx where "idx = map (\<lambda>j. start + j * step) [0..<nn]"
  define ys where "ys = fold (\<lambda>(i, v) ys. ys[i := v]) (zip idx vs) xs"
  have idx: "slice_indices (length xs) start step = idx"
    using assms by (simp add: idx_def slice_indices_eq)
  have len_idx: "length idx = nn"
    by (simp add: idx_def)
  have "0 < step"
    using assms by simp
  then have run: "setslice xs start step vs = Inr ys"
    unfolding setslice_def idx ys_def using len_idx assms(3) by simp
  have dist: "distinct idx"
    using assms by (auto simp: idx_def distinct_map inj_on_def)
  have bound: "\<forall>i\<in>set idx. i < length xs"
  proof
    fix i assume "i \<in> set idx"
    then obtain j where j: "j < nn" "i = start + j * step"
      by (auto simp: idx_def)
    then have "Suc j \<le> nn" by simp
    then have "Suc j * step \<le> nn * step" by (rule mult_le_mono1)
    with assms j show "i < length xs" by (simp add: algebra_simps)
  qed
  have "ys ! k = (if k mod step = start then vs ! (k div step) else xs ! k)"
    if "k < length xs" for k
  proof (cases "k mod step = start")
    case True
    have kd: "k div step < nn"
      using that assms by (simp add: less_mult_imp_div_less mult.commute)
    have "k mod step + k div step * step = k"
      by simp
    with kd have "idx ! (k div step) = k"
      using True by (simp add: idx_def)
    moreover have "ys ! (idx ! (k div step)) = vs ! (k div step)"
      unfolding ys_def
      by (rule fold_zip_update_nth) (use dist bound kd assms in \<open>simp_all add: idx_def\<close>)
    ultimately show ?thesis using True by simp
  next
    case False
    have "k \<notin> set idx"
      using False assms by (auto simp: idx_def)
    then show ?thesis
      using False by (simp add: ys_def fold_zip_update_other)
  qed
  with run show ?thesis by (simp add: ys_def)
qed

text \<open>
  The three slice assignments of one mode fill the whole row of \<^verbatim>\<open>mode_shape\<close>: entry
  \<open>3 n + d\<close> becomes entry \<open>ndof \<cdot> n + d\<close> of the eigenvector.
\<close>

lemma ModalDecomp_scatter_eval:
  assumes "v_mode_shape outputs = Some M" and "imode < length M"
    and "length (M ! imode) = 3 * nn" and "length vec = ndof * nn" and "3 \<le> ndof"
    and "\<forall>idof\<in>set idofs. idof < 3"
  shows "\<exists>row. ModalDecomp_scatter vec ndof imode idofs outputs =
           Inr (outputs\<lparr>v_mode_shape := Some (M[imode := row])\<rparr>) \<and>
         length row = 3 * nn \<and>
         (\<forall>k<3 * nn. row ! k =
            (if k mod 3 \<in> set idofs then vec ! (k mod 3 + k div 3 * ndof) else M ! imode ! k))"
  using assms
proof (induction idofs arbitrary: outputs M)
  case Nil
  have "M[imode := M ! imode] = M"
    by (rule list_update_id)
  with Nil show ?case
    by (intro exI [of _ "M ! imode"]) simp
next
  case (Cons idof rest)
  from Cons.prems have idof: "idof < 3" "idof < ndof" by auto
  define vals where "vals = map (\<lambda>n. vec ! (idof + n * ndof)) [0..<nn]"
  have get: "getslice vec idof ndof = Inr vals"
    unfolding vals_def by (rule getslice_eval) (use idof Cons.prems in simp_all)
  have "\<exists>ys. setslice (M ! imode) idof 3 vals = Inr ys \<and> length ys = length (M ! imode) \<and>
      (\<forall>k<length (M ! imode). ys ! k =
         (if k mod 3 = idof then vals ! (k div 3) else M ! imode ! k))"
    by (rule setslice_eval [where nn = nn]) (use idof Cons.prems in \<open>simp_all add: vals_def\<close>)
  then obtain row1 where
    set: "setslice (M ! imode) idof 3 vals = Inr row1" and len1: "length row1 = 3 * nn"
    and row1: "\<forall>k<3 * nn. row1 ! k = (if k mod 3 = idof then vals ! (k div 3) else M ! imode ! k)"
    using Cons.prems by auto
  define outputs1 where "outputs1 = outputs\<lparr>v_mode_shape := Some (M[imode := row1])\<rparr>"
  have "\<exists>row. ModalDecomp_scatter vec ndof imode rest outputs1 =
           Inr (outputs1\<lparr>v_mode_shape := Some ((M[imode := row1])[imode := row])\<rparr>) \<and>
         length row = 3 * nn \<and>
         (\<forall>k<3 * nn. row ! k =
            (if k mod 3 \<in> set rest then vec ! (k mod 3 + k div 3 * ndof)
             else (M[imode := row1]) ! imode ! k))"
    by (rule Cons.IH) (use Cons.prems len1 in \<open>simp_all add: outputs1_def\<close>)
  then obtain row where
    run: "ModalDecomp_scatter vec ndof imode rest outputs1 =
           Inr (outputs1\<lparr>v_mode_shape := Some ((M[imode := row1])[imode := row])\<rparr>)"
    and len: "length row = 3 * nn"
    and row: "\<forall>k<3 * nn. row ! k =
            (if k mod 3 \<in> set rest then vec ! (k mod 3 + k div 3 * ndof)
             else (M[imode := row1]) ! imode ! k)"
    by blast
  have "row ! k = (if k mod 3 \<in> set (idof # rest) then vec ! (k mod 3 + k div 3 * ndof)
      else M ! imode ! k)" if k: "k < 3 * nn" for k
  proof -
    have "k div 3 < nn"
      using k by simp
    then have "vals ! (k div 3) = vec ! (idof + k div 3 * ndof)"
      by (simp add: vals_def)
    with row row1 k Cons.prems(2) show ?thesis
      by auto
  qed
  moreover have "ModalDecomp_scatter vec ndof imode (idof # rest) outputs =
      Inr (outputs\<lparr>v_mode_shape := Some (M[imode := row])\<rparr>)"
    using Cons.prems(1,2) get set run by (simp add: outputs1_def)
  ultimately show ?case
    using len by blast
qed

lemma ModalDecomp_scatter_all:
  assumes "v_mode_shape outputs = Some M" and "imode < length M"
    and "length (M ! imode) = 3 * nn" and "length vec = ndof * nn" and "3 \<le> ndof"
  shows "ModalDecomp_scatter vec ndof imode [0..<3] outputs =
           Inr (outputs\<lparr>v_mode_shape := Some (M[imode := (map (\<lambda>k. vec ! (k mod 3 + k div 3 * ndof)) [0..<3 * nn])])\<rparr>)"
proof -
  have "\<exists>row. ModalDecomp_scatter vec ndof imode [0..<3] outputs =
           Inr (outputs\<lparr>v_mode_shape := Some (M[imode := row])\<rparr>) \<and>
         length row = 3 * nn \<and>
         (\<forall>k<3 * nn. row ! k =
            (if k mod 3 \<in> set [0..<3] then vec ! (k mod 3 + k div 3 * ndof) else M ! imode ! k))"
    using assms by (intro ModalDecomp_scatter_eval) simp_all
  then obtain row where
    run: "ModalDecomp_scatter vec ndof imode [0..<3] outputs =
           Inr (outputs\<lparr>v_mode_shape := Some (M[imode := row])\<rparr>)"
    and len: "length row = 3 * nn"
    and row: "\<forall>k<3 * nn. row ! k =
            (if k mod 3 \<in> set [0..<3] then vec ! (k mod 3 + k div 3 * ndof) else M ! imode ! k)"
    by blast
  have "row = (map (\<lambda>k. vec ! (k mod 3 + k div 3 * ndof)) [0..<3 * nn])"
    by (rule nth_equalityI) (use len row in simp_all)
  with run show ?thesis by simp
qed

lemma ModalDecomp_compute_loop_eval:
  assumes "v_modal_mass outputs = Some mm" and "v_modal_stiffness outputs = Some ms"
    and "v_mode_shape outputs = Some M"
    and "\<forall>i\<in>set imodes. i < length mm \<and> i < length ms \<and> i < length M \<and>
           length (snd (snd (ex i))) = dec_ndof self * nn"
    and "\<forall>i<length M. length (M ! i) = 3 * nn" and "3 \<le> dec_ndof self"
  shows "ModalDecomp_compute_loop self ex imodes outputs =
    Inr (outputs\<lparr>v_modal_mass := Some (fold (\<lambda>i ys. ys[i := 1]) imodes mm),
      v_modal_stiffness := Some (fold (\<lambda>i ys. ys[i := fst (ex i)]) imodes ms),
      v_mode_shape := Some
        (fold (\<lambda>i ys. ys[i := (map (\<lambda>k. (snd (snd (ex i))) ! (k mod 3 + k div 3 * (dec_ndof self))) [0..<3 * nn])]) imodes M)\<rparr>)"
  using assms
proof (induction imodes arbitrary: outputs mm ms M)
  case Nil
  then show ?case by simp
next
  case (Cons imode rest)
  obtain eig err vec where ex: "ex imode = (eig, err, vec)"
    by (cases "ex imode") auto
  from Cons.prems ex have imode: "imode < length mm" "imode < length ms" "imode < length M"
    and vec: "length vec = dec_ndof self * nn"
    by auto
  define outputs1 where
    "outputs1 = outputs\<lparr>v_modal_mass := Some (mm[imode := 1]),
       v_modal_stiffness := Some (ms[imode := eig])\<rparr>"
  define M1 where "M1 = M[imode := (map (\<lambda>k. vec ! (k mod 3 + k div 3 * (dec_ndof self))) [0..<3 * nn])]"
  have scatter: "ModalDecomp_scatter vec (dec_ndof self) imode [0..<3] outputs1 =
           Inr (outputs1\<lparr>v_mode_shape := Some M1\<rparr>)"
    unfolding M1_def
    by (rule ModalDecomp_scatter_all)
      (use Cons.prems imode vec in \<open>simp_all add: outputs1_def\<close>)
  have rows: "\<forall>i<length M1. length (M1 ! i) = 3 * nn"
  proof (intro allI impI)
    fix i assume "i < length M1"
    then show "length (M1 ! i) = 3 * nn"
      using Cons.prems(5) by (cases "i = imode") (simp_all add: M1_def)
  qed
  have "ModalDecomp_compute_loop self ex rest (outputs1\<lparr>v_mode_shape := Some M1\<rparr>) =
    Inr (outputs1\<lparr>v_mode_shape := Some M1\<rparr>
      \<lparr>v_modal_mass := Some (fold (\<lambda>i ys. ys[i := 1]) rest (mm[imode := 1])),
      v_modal_stiffness := Some (fold (\<lambda>i ys. ys[i := fst (ex i)]) rest (ms[imode := eig])),
      v_mode_shape := Some
        (fold (\<lambda>i ys. ys[i := (map (\<lambda>k. (snd (snd (ex i))) ! (k mod 3 + k div 3 * (dec_ndof self))) [0..<3 * nn])]) rest M1)\<rparr>)"
    by (rule Cons.IH) (use Cons.prems rows in \<open>simp_all add: outputs1_def M1_def\<close>)
  then show ?case
    using Cons.prems(1,2) imode ex scatter by (simp add: outputs1_def M1_def)
qed

lemma ModalDecomp_compute_eval:
  assumes "v_dv_struct inputs = Some dv" and "v_x_s0 outputs = Some x0"
    and "length x0 = length (dec_xpts self)"
    and "v_modal_mass outputs = Some mm" and "length mm = dec_nmodes self"
    and "v_modal_stiffness outputs = Some ms" and "length ms = dec_nmodes self"
    and "v_mode_shape outputs = Some M" and "length M = dec_nmodes self"
    and "\<forall>i<dec_nmodes self. length (M ! i) = 3 * nn"
    and "3 \<le> dec_ndof self"
    and "\<forall>i<dec_nmodes self. length (snd (snd (tacs dv i))) = dec_ndof self * nn"
  shows "ModalDecomp_compute self tacs inputs outputs =
    Inr (outputs\<lparr>v_x_s0 := Some (dec_xpts self),
      v_modal_mass := Some (replicate (dec_nmodes self) 1),
      v_modal_stiffness := Some (map (\<lambda>i. fst (tacs dv i)) [0..<dec_nmodes self]),
      v_mode_shape := Some
        (map (\<lambda>i. (map (\<lambda>k. (snd (snd (tacs dv i))) ! (k mod 3 + k div 3 * (dec_ndof self))) [0..<3 * nn])) [0..<dec_nmodes self])\<rparr>)"
proof -
  define n where "n = dec_nmodes self"
  have loop: "ModalDecomp_compute_loop self (tacs dv) [0..<n]
      (outputs\<lparr>v_x_s0 := Some (dec_xpts self)\<rparr>) =
    Inr (outputs\<lparr>v_x_s0 := Some (dec_xpts self)\<rparr>
      \<lparr>v_modal_mass := Some (fold (\<lambda>i ys. ys[i := 1]) [0..<n] mm),
      v_modal_stiffness := Some (fold (\<lambda>i ys. ys[i := fst (tacs dv i)]) [0..<n] ms),
      v_mode_shape := Some
        (fold (\<lambda>i ys. ys[i := (map (\<lambda>k. (snd (snd (tacs dv i))) ! (k mod 3 + k div 3 * (dec_ndof self))) [0..<3 * nn])]) [0..<n] M)\<rparr>)"
    by (rule ModalDecomp_compute_loop_eval) (use assms in \<open>simp_all add: n_def\<close>)
  have 1: "fold (\<lambda>i ys. ys[i := 1]) [0..<n] mm = replicate n 1"
    by (rule nth_equalityI) (use assms in \<open>simp_all add: fold_update_upt_nth n_def\<close>)
  have 2: "fold (\<lambda>i ys. ys[i := fst (tacs dv i)]) [0..<n] ms = map (\<lambda>i. fst (tacs dv i)) [0..<n]"
    by (rule nth_equalityI) (use assms in \<open>simp_all add: fold_update_upt_nth n_def\<close>)
  have 3: "fold (\<lambda>i ys. ys[i := (map (\<lambda>k. (snd (snd (tacs dv i))) ! (k mod 3 + k div 3 * (dec_ndof self))) [0..<3 * nn])]) [0..<n] M =
      map (\<lambda>i. (map (\<lambda>k. (snd (snd (tacs dv i))) ! (k mod 3 + k div 3 * (dec_ndof self))) [0..<3 * nn])) [0..<n]"
    by (rule nth_equalityI) (use assms in \<open>simp_all add: fold_update_upt_nth n_def\<close>)
  show ?thesis
    using assms(1-3) loop unfolding 1 2 3
    by (simp add: ModalDecomp_compute_def n_def)
qed

text \<open>
  Claim C4, as the code has it.  \<^verbatim>\<open>ModalDecomp.compute\<close> binds the error indicator
  \<^verbatim>\<open>err\<close> of \<^verbatim>\<open>extractEigenvector\<close> and never reads it, and raises nothing of its
  own.  Let the eigensolver give, for mode \<open>i\<close>, the eigenvalue \<open>eig i\<close>, the error
  indicator \<open>err i\<close> and the eigenvector \<open>vec i\<close> (every eigensolver is of this form).
  With the design-variable input present, output arrays of the declared shapes
  (\<^verbatim>\<open>x_s0\<close> as long as the node coordinates, \<^verbatim>\<open>modal_mass\<close> and
  \<^verbatim>\<open>modal_stiffness\<close> of length \<open>nmodes\<close>, \<^verbatim>\<open>mode_shape\<close> of \<open>nmodes\<close> rows of
  \<open>3 \<cdot> Nn\<close> entries), at least three degrees of freedom per node and eigenvectors of
  \<open>ndof \<cdot> Nn\<close> entries, it returns the modal basis built from the eigenpairs:
  \<^verbatim>\<open>x_s0\<close> is the node coordinates, \<^verbatim>\<open>modal_mass[i]\<close> is \<open>1.0\<close>,
  \<^verbatim>\<open>modal_stiffness[i]\<close> is \<open>eig i\<close>, and \<^verbatim>\<open>mode_shape[i, 3 n + d]\<close> is entry
  \<open>ndof \<cdot> n + d\<close> of \<open>vec i\<close>, for every node \<open>n\<close> and \<open>d < 3\<close>.  The basis does not
  depend on \<open>err\<close>.
\<close>

theorem ModalDecomp_compute_basis:
  assumes "v_dv_struct inputs = Some dv" and "v_x_s0 outputs = Some x0"
    and "length x0 = length (dec_xpts self)"
    and "v_modal_mass outputs = Some mm" and "length mm = dec_nmodes self"
    and "v_modal_stiffness outputs = Some ms" and "length ms = dec_nmodes self"
    and "v_mode_shape outputs = Some M" and "length M = dec_nmodes self"
    and "\<forall>i<dec_nmodes self. length (M ! i) = 3 * nn"
    and "3 \<le> dec_ndof self"
    and "\<forall>i<dec_nmodes self. length (vec dv i) = dec_ndof self * nn"
  shows "ModalDecomp_compute self (\<lambda>dv i. (eig dv i, err dv i, vec dv i)) inputs outputs =
    Inr (outputs\<lparr>v_x_s0 := Some (dec_xpts self),
      v_modal_mass := Some (replicate (dec_nmodes self) 1),
      v_modal_stiffness := Some (map (\<lambda>i. eig dv i) [0..<dec_nmodes self]),
      v_mode_shape := Some
        (map (\<lambda>i. map (\<lambda>k. vec dv i ! (k mod 3 + k div 3 * dec_ndof self)) [0..<3 * nn])
           [0..<dec_nmodes self])\<rparr>)"
proof -
  have "ModalDecomp_compute self (\<lambda>dv i. (eig dv i, err dv i, vec dv i)) inputs outputs =
    Inr (outputs\<lparr>v_x_s0 := Some (dec_xpts self),
      v_modal_mass := Some (replicate (dec_nmodes self) 1),
      v_modal_stiffness := Some
        (map (\<lambda>i. fst ((\<lambda>dv i. (eig dv i, err dv i, vec dv i)) dv i)) [0..<dec_nmodes self]),
      v_mode_shape := Some
        (map (\<lambda>i. (map (\<lambda>k. (snd (snd ((\<lambda>dv i. (eig dv i, err dv i, vec dv i)) dv i))) ! (k mod 3 + k div 3 * (dec_ndof self))) [0..<3 * nn]))
           [0..<dec_nmodes self])\<rparr>)"
    by (rule ModalDecomp_compute_eval [where ?x0.0 = x0 and mm = mm and ms = ms and M = M])
      (use assms in simp_all)
  then show ?thesis
    by simp
qed

theorem ModalDecomp_compute_basis_witness:
  "ModalDecomp_compute \<lparr>dec_nmodes = 1, dec_ndof = 6, dec_xpts = [Fin 7, Fin 8, Fin 9]\<rparr>
     (\<lambda>dv i. (Fin 4, Fin 1, [Fin 1, Fin 2, Fin 3, Fin 10, Fin 11, Fin 12]))
     (no_vars\<lparr>v_dv_struct := Some []\<rparr>)
     (no_vars\<lparr>v_mode_shape := Some [[Fin 0, Fin 0, Fin 0]], v_modal_mass := Some [Fin 0],
        v_modal_stiffness := Some [Fin 0], v_x_s0 := Some [Fin 0, Fin 0, Fin 0]\<rparr>) =
   Inr (no_vars\<lparr>v_mode_shape := Some [[Fin 1, Fin 2, Fin 3]], v_modal_mass := Some [Fin 1],
        v_modal_stiffness := Some [Fin 4], v_x_s0 := Some [Fin 7, Fin 8, Fin 9]\<rparr>)"
  using ModalDecomp_compute_basis [where nn = 1 and dv = "[]"
        and self = "\<lparr>dec_nmodes = 1, dec_ndof = 6, dec_xpts = [Fin 7, Fin 8, Fin 9]\<rparr>"
        and inputs = "no_vars\<lparr>v_dv_struct := Some []\<rparr>"
        and outputs = "no_vars\<lparr>v_mode_shape := Some [[Fin 0, Fin 0, Fin 0]],
          v_modal_mass := Some [Fin 0], v_modal_stiffness := Some [Fin 0],
          v_x_s0 := Some [Fin 0, Fin 0, Fin 0]\<rparr>"
        and ?x0.0 = "[Fin 0, Fin 0, Fin 0]" and mm = "[Fin 0]" and ms = "[Fin 0]"
        and M = "[[Fin 0, Fin 0, Fin 0]]"
        and eig = "\<lambda>dv i. Fin 4" and err = "\<lambda>dv i. Fin 1"
        and vec = "\<lambda>dv i. [Fin 1, Fin 2, Fin 3, Fin 10, Fin 11, Fin 12]"]
  by (simp add: one_npfloat_def upt_rec)

text \<open>
  Claim C4, as the specification states it, fails: an eigenpair extracted with the error
  indicator \<open>1\<close> goes into the returned modal basis like any other, and no failure is
  raised.
\<close>

theorem ModalDecomp_nonzero_err_counterexample:
  "ModalDecomp_compute \<lparr>dec_nmodes = 1, dec_ndof = 3, dec_xpts = [Fin 0, Fin 0, Fin 0]\<rparr>
     (\<lambda>dv imode. (Fin 4, Fin 1, [Fin 1, Fin 2, Fin 3]))
     (no_vars\<lparr>v_dv_struct := Some []\<rparr>)
     (no_vars\<lparr>v_mode_shape := Some [[Fin 0, Fin 0, Fin 0]], v_modal_mass := Some [Fin 0],
        v_modal_stiffness := Some [Fin 0], v_x_s0 := Some [Fin 0, Fin 0, Fin 0]\<rparr>) =
   Inr (no_vars\<lparr>v_mode_shape := Some [[Fin 1, Fin 2, Fin 3]], v_modal_mass := Some [Fin 1],
        v_modal_stiffness := Some [Fin 4], v_x_s0 := Some [Fin 0, Fin 0, Fin 0]\<rparr>)"
  by code_simp


end
